theory Spec2Isabelle
  imports Complex_Main
begin

section \<open>Arrays and the array operations used by the scripts\<close>

text \<open>
  The scripts work on one-dimensional arrays (mean vectors) and two-dimensional arrays
  (covariance matrices) of double-precision numbers. The model keeps the shape
  discipline of the array library (shape checks, broadcasting of axes of length one,
  failures as values) and idealises the entries as exact real numbers: a decimal literal
  such as \<open>0.2\<close> is the rational \<open>1/5\<close>, and sums and products do not round.
  A matrix is the list of its rows; the empty list is the array of shape \<open>(0, 0)\<close>.
\<close>

type_synonym vec = "real list"
type_synonym mat = "real list list"

datatype error =
    BroadcastError   \<comment> \<open>ValueError: operands could not be broadcast together\<close>
  | MatmulError      \<comment> \<open>ValueError: matmul, mismatch in the core dimension\<close>
  | TypeError        \<comment> \<open>an operand is not an array of the expected rank\<close>
  | LibraryError nat \<comment> \<open>any exception raised inside the matrix square root routine\<close>
  | ZeroDivisionError \<comment> \<open>Python's division of a number by zero\<close>

definition bind_err :: "error + 'a \<Rightarrow> ('a \<Rightarrow> error + 'b) \<Rightarrow> error + 'b" where
  "bind_err m f = (case m of Inl e \<Rightarrow> Inl e | Inr x \<Rightarrow> f x)"

definition is_mat :: "nat \<Rightarrow> nat \<Rightarrow> mat \<Rightarrow> bool" where
  "is_mat r c M \<longleftrightarrow> length M = r \<and> list_all (\<lambda>row. length row = c) M"

definition nrows :: "mat \<Rightarrow> nat" where
  "nrows M = length M"

definition ncols :: "mat \<Rightarrow> nat" where
  "ncols M = (case M of [] \<Rightarrow> 0 | row # _ \<Rightarrow> length row)"

text \<open>
  Broadcasting of one axis: two lengths are compatible when they are equal or one of
  them is \<open>1\<close>; the result has the other length. An axis of length one is read at
  index \<open>0\<close> whatever the index asked for.
\<close>

definition bcast_len :: "nat \<Rightarrow> nat \<Rightarrow> nat option" where
  "bcast_len n m =
     (if n = m then Some n else if n = 1 then Some m else if m = 1 then Some n else None)"

definition bidx :: "nat \<Rightarrow> nat \<Rightarrow> nat" where
  "bidx len i = (if len = 1 then 0 else i)"

definition np_binop_vec :: "(real \<Rightarrow> real \<Rightarrow> real) \<Rightarrow> vec \<Rightarrow> vec \<Rightarrow> error + vec" where
  "np_binop_vec f x y =
     (case bcast_len (length x) (length y) of
        None \<Rightarrow> Inl BroadcastError
      | Some n \<Rightarrow> Inr (map (\<lambda>i. f (x ! bidx (length x) i) (y ! bidx (length y) i)) [0..<n]))"

definition np_binop_mat :: "(real \<Rightarrow> real \<Rightarrow> real) \<Rightarrow> mat \<Rightarrow> mat \<Rightarrow> error + mat" where
  "np_binop_mat f A B =
     (case (bcast_len (nrows A) (nrows B), bcast_len (ncols A) (ncols B)) of
        (Some r, Some c) \<Rightarrow>
          Inr (map (\<lambda>i. map (\<lambda>j. f (A ! bidx (nrows A) i ! bidx (ncols A) j)
                                   (B ! bidx (nrows B) i ! bidx (ncols B) j)) [0..<c]) [0..<r])
      | _ \<Rightarrow> Inl BroadcastError)"

text \<open>\<open>a - b\<close> and \<open>a + b\<close> on arrays, \<open>a ** 2\<close>, \<open>2 * a\<close>, \<open>np.sum\<close>, \<open>np.trace\<close>, \<open>a @ b\<close>.\<close>

definition np_sub_vec :: "vec \<Rightarrow> vec \<Rightarrow> error + vec" where
  "np_sub_vec = np_binop_vec (\<lambda>a b. a - b)"

definition np_add_mat :: "mat \<Rightarrow> mat \<Rightarrow> error + mat" where
  "np_add_mat = np_binop_mat (\<lambda>a b. a + b)"

definition np_sub_mat :: "mat \<Rightarrow> mat \<Rightarrow> error + mat" where
  "np_sub_mat = np_binop_mat (\<lambda>a b. a - b)"

definition np_square :: "vec \<Rightarrow> vec" where
  "np_square v = map (\<lambda>x. x ^ 2) v"

definition np_sum :: "vec \<Rightarrow> real" where
  "np_sum v = sum_list v"

definition np_scale :: "real \<Rightarrow> mat \<Rightarrow> mat" where
  "np_scale k A = map (map (\<lambda>x. k * x)) A"

definition np_trace :: "mat \<Rightarrow> real" where
  "np_trace A = sum_list (map (\<lambda>i. A ! i ! i) [0..<min (nrows A) (ncols A)])"

definition np_matmul :: "mat \<Rightarrow> mat \<Rightarrow> error + mat" where
  "np_matmul A B =
     (if ncols A \<noteq> nrows B then Inl MatmulError
      else Inr (map (\<lambda>i. map (\<lambda>j. sum_list (map (\<lambda>k. A ! i ! k * B ! k ! j) [0..<ncols A]))
                              [0..<ncols B]) [0..<nrows A]))"

section \<open>The distance function of the script\<close>

text \<open>
  The matrix square root is a routine of an external library. It is a parameter of the
  model: a function from the matrix to either an exception or the pair the call
  \<open>sqrtm(A, disp=False)\<close> returns, the computed root and the error estimate.
\<close>

type_synonym sqrtm_routine = "mat \<Rightarrow> error + (mat \<times> real)"

definition calculate_fid ::
  "sqrtm_routine \<Rightarrow> vec \<Rightarrow> mat \<Rightarrow> vec \<Rightarrow> mat \<Rightarrow> error + real" where
  "calculate_fid sqrtm real_mu real_sigma x_mu x_sigma =
     bind_err (np_sub_vec real_mu x_mu) (\<lambda>diff.
     let mean_diff = np_sum (np_square diff) in
     bind_err (np_matmul real_sigma x_sigma) (\<lambda>prod.
     bind_err (sqrtm prod) (\<lambda>(covmean, _).
     bind_err (np_add_mat real_sigma x_sigma) (\<lambda>s.
     bind_err (np_sub_mat s (np_scale 2 covmean)) (\<lambda>d.
     Inr (mean_diff + np_trace d))))))"

text \<open>Two routines used to evaluate the model: one returns a fixed matrix, one its argument.\<close>

definition constant_routine :: "mat \<Rightarrow> sqrtm_routine" where
  "constant_routine R P = Inr (R, 0)"

definition echo_routine :: sqrtm_routine where
  "echo_routine P = Inr (P, 0)"

section \<open>The formula the distance function is specified by\<close>

text \<open>
  The specification describes the result as the squared Euclidean distance between the
  mean vectors plus the trace of the sum of the covariance matrices minus twice the matrix
  square root of their product. These definitions follow that wording, with entries
  addressed by index; \<open>R\<close> stands for the square root the library routine returns.
\<close>

definition squared_distance :: "vec \<Rightarrow> vec \<Rightarrow> real" where
  "squared_distance a b = (sqrt (\<Sum>i<length a. (a ! i - b ! i)\<^sup>2))\<^sup>2"

definition trace_of :: "nat \<Rightarrow> (nat \<Rightarrow> nat \<Rightarrow> real) \<Rightarrow> real" where
  "trace_of n M = (\<Sum>i<n. M i i)"

definition matrix_product :: "nat \<Rightarrow> mat \<Rightarrow> mat \<Rightarrow> mat" where
  "matrix_product n A B =
     map (\<lambda>i. map (\<lambda>j. \<Sum>k<n. A ! i ! k * B ! k ! j) [0..<n]) [0..<n]"

definition fid_formula :: "nat \<Rightarrow> vec \<Rightarrow> mat \<Rightarrow> vec \<Rightarrow> mat \<Rightarrow> mat \<Rightarrow> real" where
  "fid_formula n a A b B R =
     squared_distance a b + trace_of n (\<lambda>i j. A ! i ! j + B ! i ! j - 2 * R ! i ! j)"

section \<open>Covariance matrices\<close>

text \<open>
  A covariance matrix is symmetric and positive semi-definite: its quadratic form is
  nowhere negative. For such a matrix the principal square root is its symmetric positive
  semi-definite square root.
\<close>

definition quad_form :: "mat \<Rightarrow> vec \<Rightarrow> real" where
  "quad_form A v = (\<Sum>i<length v. \<Sum>j<length v. v ! i * A ! i ! j * v ! j)"

definition symmetric :: "nat \<Rightarrow> mat \<Rightarrow> bool" where
  "symmetric n A \<longleftrightarrow> is_mat n n A \<and> (\<forall>i<n. \<forall>j<n. A ! i ! j = A ! j ! i)"

definition pos_semidef :: "nat \<Rightarrow> mat \<Rightarrow> bool" where
  "pos_semidef n A \<longleftrightarrow> (\<forall>v. length v = n \<longrightarrow> 0 \<le> quad_form A v)"

definition sym_psd :: "nat \<Rightarrow> mat \<Rightarrow> bool" where
  "sym_psd n A \<longleftrightarrow> symmetric n A \<and> pos_semidef n A"


section \<open>The hard-coded statistics of the script\<close>

definition mu_real :: vec where
  "mu_real = [0.5, 0.2, 0.7, 0.4]"

definition sigma_real :: mat where
  "sigma_real =
    [[0.2, 0.1, 0.05, 0.02],
     [0.1, 0.3, 0.1, 0.05],
     [0.05, 0.1, 0.4, 0.1],
     [0.02, 0.05, 0.1, 0.2]]"

definition mu1 :: vec where
  "mu1 = [0.4, 0.3, 0.5, 0.6]"

definition sigma1 :: mat where
  "sigma1 =
    [[0.7, 0.1, 0.05, 0.02],
     [0.1, 0.2, 0.1, 0.05],
     [0.05, 0.1, 0.3, 0.1],
     [0.02, 0.05, 0.1, 0.15]]"

definition mu2 :: vec where
  "mu2 = [0.7, 0.1, 0.3, 0.5]"

definition sigma2 :: mat where
  "sigma2 =
    [[0.4, 0.05, 0.05, 0.01],
     [0.05, 0.3, 0.1, 0.05],
     [0.05, 0.1, 0.2, 0.05],
     [0.01, 0.05, 0.05, 0.2]]"

text \<open>
  The script calls the distance function twice, prints both results with four decimals and
  names the set with the smaller distance. Formatting a floating-point number is Python's;
  it is a parameter. The last \<open>print\<close> starts with a line break, hence the empty line.
\<close>

definition better :: "real \<Rightarrow> real \<Rightarrow> string" where
  "better fid1 fid2 = (if fid1 < fid2 then ''Set I'' else ''Set II'')"

definition script :: "sqrtm_routine \<Rightarrow> (real \<Rightarrow> string) \<Rightarrow> error + string list" where
  "script routine format_4f =
     bind_err (calculate_fid routine mu_real sigma_real mu1 sigma1) (\<lambda>fid1.
     bind_err (calculate_fid routine mu_real sigma_real mu2 sigma2) (\<lambda>fid2.
     Inr [''FID between Real and Fake Set I: '' @ format_4f fid1,
          ''FID between Real and Fake Set II: '' @ format_4f fid2,
          '''',
          ''Based on FID score, Fake Image '' @ better fid1 fid2 @ '' is better'']))"

section \<open>The interpreter state: arrays as objects\<close>

text \<open>
  To speak about mutation, the arrays live in a store: a reference is a natural number,
  the heap maps references to array objects, \<open>next_ref\<close> is the next unused reference,
  \<open>globals\<close> binds the module's names and \<open>stdout\<close> is the text printed so far.
  A computation takes the state and returns an exception or a value, with the new state.
  Mean vectors are one-dimensional and covariance matrices two-dimensional arrays; a
  reference that does not hold an array of the expected rank is reported as \<open>TypeError\<close>.
\<close>

datatype ndarray = Vec vec | Mat mat

record pystate =
  heap :: "nat \<Rightarrow> ndarray option"
  next_ref :: nat
  globals :: "string \<Rightarrow> nat option"
  stdout :: "string list"

type_synonym 'a py = "pystate \<Rightarrow> (error + 'a) \<times> pystate"

definition py_return :: "'a \<Rightarrow> 'a py" where
  "py_return x s = (Inr x, s)"

definition py_lift :: "error + 'a \<Rightarrow> 'a py" where
  "py_lift r s = (r, s)"

definition py_bind :: "'a py \<Rightarrow> ('a \<Rightarrow> 'b py) \<Rightarrow> 'b py" where
  "py_bind m f s = (case m s of (Inl e, s') \<Rightarrow> (Inl e, s') | (Inr x, s') \<Rightarrow> f x s')"

definition new_array :: "ndarray \<Rightarrow> nat py" where
  "new_array a s =
     (Inr (next_ref s), s\<lparr>heap := (heap s)(next_ref s \<mapsto> a), next_ref := Suc (next_ref s)\<rparr>)"

definition get_vec :: "nat \<Rightarrow> vec py" where
  "get_vec r s = (case heap s r of Some (Vec v) \<Rightarrow> (Inr v, s) | _ \<Rightarrow> (Inl TypeError, s))"

definition get_mat :: "nat \<Rightarrow> mat py" where
  "get_mat r s = (case heap s r of Some (Mat A) \<Rightarrow> (Inr A, s) | _ \<Rightarrow> (Inl TypeError, s))"

definition py_print :: "string \<Rightarrow> unit py" where
  "py_print line s = (Inr (), s\<lparr>stdout := stdout s @ [line]\<rparr>)"

definition vec_sub :: "nat \<Rightarrow> nat \<Rightarrow> nat py" where
  "vec_sub x y =
     py_bind (get_vec x) (\<lambda>a. py_bind (get_vec y) (\<lambda>b.
     py_bind (py_lift (np_sub_vec a b)) (\<lambda>v. new_array (Vec v))))"

definition vec_square :: "nat \<Rightarrow> nat py" where
  "vec_square x = py_bind (get_vec x) (\<lambda>a. new_array (Vec (np_square a)))"

definition vec_sum :: "nat \<Rightarrow> real py" where
  "vec_sum x = py_bind (get_vec x) (\<lambda>a. py_return (np_sum a))"

definition mat_matmul :: "nat \<Rightarrow> nat \<Rightarrow> nat py" where
  "mat_matmul x y =
     py_bind (get_mat x) (\<lambda>A. py_bind (get_mat y) (\<lambda>B.
     py_bind (py_lift (np_matmul A B)) (\<lambda>P. new_array (Mat P))))"

definition mat_add :: "nat \<Rightarrow> nat \<Rightarrow> nat py" where
  "mat_add x y =
     py_bind (get_mat x) (\<lambda>A. py_bind (get_mat y) (\<lambda>B.
     py_bind (py_lift (np_add_mat A B)) (\<lambda>P. new_array (Mat P))))"

definition mat_sub :: "nat \<Rightarrow> nat \<Rightarrow> nat py" where
  "mat_sub x y =
     py_bind (get_mat x) (\<lambda>A. py_bind (get_mat y) (\<lambda>B.
     py_bind (py_lift (np_sub_mat A B)) (\<lambda>P. new_array (Mat P))))"

definition mat_scale :: "real \<Rightarrow> nat \<Rightarrow> nat py" where
  "mat_scale k x = py_bind (get_mat x) (\<lambda>A. new_array (Mat (np_scale k A)))"

definition mat_trace :: "nat \<Rightarrow> real py" where
  "mat_trace x = py_bind (get_mat x) (\<lambda>A. py_return (np_trace A))"

section \<open>The matrix square root routine and its \<open>disp\<close> argument\<close>

text \<open>
  The numerical core of the library routine is a parameter: for a matrix it raises an
  exception or yields the computed root, whether the routine regards the computation as
  failed, and its error estimate. The calling protocol follows the library's documentation:
  with \<open>disp=True\<close>, the default, the routine prints a warning when it fails and
  returns the root alone; with \<open>disp=False\<close> it prints nothing and returns the root
  together with the error estimate. The routine leaves its argument untouched and returns a
  fresh array. In the floating-point library the entries of the returned array are not
  numbers after a failure; the real-valued model keeps whatever matrix the parameter
  supplies, and no statement below is about the number computed from it.
\<close>

record sqrtm_outcome =
  root :: mat
  failed :: bool
  errest :: real

type_synonym sqrtm_core = "mat \<Rightarrow> error + sqrtm_outcome"

definition sqrtm :: "sqrtm_core \<Rightarrow> nat \<Rightarrow> bool \<Rightarrow> (nat \<times> real option) py" where
  "sqrtm core x disp =
     py_bind (get_mat x) (\<lambda>A.
     py_bind (py_lift (core A)) (\<lambda>out.
     py_bind (new_array (Mat (root out))) (\<lambda>X.
     if disp then
       py_bind (if failed out then py_print ''Failed to find a square root.'' else py_return ())
         (\<lambda>_. py_return (X, None))
     else py_return (X, Some (errest out)))))"

text \<open>
  \<open>sqrtm_of_product_default\<close> is the call \<open>sqrtm(x @ y)\<close> with the library's default for
  \<open>disp\<close>; \<open>sqrtm_nodisp\<close> is the value the call with \<open>disp=False\<close> returns.
\<close>

definition sqrtm_of_product_default :: "sqrtm_core \<Rightarrow> nat \<Rightarrow> nat \<Rightarrow> (nat \<times> real option) py" where
  "sqrtm_of_product_default core x y = py_bind (mat_matmul x y) (\<lambda>prod. sqrtm core prod True)"

definition sqrtm_nodisp :: "sqrtm_core \<Rightarrow> sqrtm_routine" where
  "sqrtm_nodisp core A =
     (case core A of Inl e \<Rightarrow> Inl e | Inr out \<Rightarrow> Inr (root out, errest out))"

section \<open>The distance function on the store\<close>

text \<open>
  The same function, statement by statement, on references: every array expression of the
  source (\<open>a - b\<close>, \<open>a ** 2\<close>, \<open>a @ b\<close>, \<open>a + b\<close>, \<open>2 * a\<close>) builds a new array.
\<close>

definition calculate_fid_run :: "sqrtm_core \<Rightarrow> nat \<Rightarrow> nat \<Rightarrow> nat \<Rightarrow> nat \<Rightarrow> real py" where
  "calculate_fid_run core real_mu real_sigma x_mu x_sigma =
     py_bind (vec_sub real_mu x_mu) (\<lambda>diff.
     py_bind (vec_square diff) (\<lambda>sq.
     py_bind (vec_sum sq) (\<lambda>mean_diff.
     py_bind (mat_matmul real_sigma x_sigma) (\<lambda>prod.
     py_bind (sqrtm core prod False) (\<lambda>(covmean, _).
     py_bind (mat_add real_sigma x_sigma) (\<lambda>s.
     py_bind (mat_scale 2 covmean) (\<lambda>t.
     py_bind (mat_sub s t) (\<lambda>d.
     py_bind (mat_trace d) (\<lambda>tr.
     py_return (mean_diff + tr))))))))))"

text \<open>
  A state extends another when it has only gained arrays: every reference in use before
  holds the same array, and the global bindings and the printed text are the same.
\<close>

definition extends :: "pystate \<Rightarrow> pystate \<Rightarrow> bool" where
  "extends s s' \<longleftrightarrow>
     next_ref s \<le> next_ref s' \<and> (\<forall>r<next_ref s. heap s' r = heap s r) \<and>
     globals s' = globals s \<and> stdout s' = stdout s"

definition allocates_only :: "'a py \<Rightarrow> bool" where
  "allocates_only m \<longleftrightarrow> (\<forall>s. extends s (snd (m s)))"

definition heap_wf :: "pystate \<Rightarrow> bool" where
  "heap_wf s \<longleftrightarrow> (\<forall>r. heap s r \<noteq> None \<longrightarrow> r < next_ref s)"

text \<open>A small concrete state and a routine that reports failure, used to evaluate the model.\<close>

definition example_state :: pystate where
  "example_state =
     \<lparr>heap = [0 \<mapsto> Vec [1, 2], 1 \<mapsto> Mat [[0, 1], [0, 0]], 2 \<mapsto> Vec [3, 5], 3 \<mapsto> Mat [[1, 0], [0, 1]]],
      next_ref = 4,
      globals = [''mu_real'' \<mapsto> 0, ''sigma_real'' \<mapsto> 1, ''mu1'' \<mapsto> 2, ''sigma1'' \<mapsto> 3],
      stdout = []\<rparr>"

definition failing_core :: sqrtm_core where
  "failing_core A = Inr \<lparr>root = A, failed = True, errest = 1\<rparr>"

section \<open>Tensors, parameters and the optimizer of the training notebook\<close>

text \<open>
  The training notebook drives a tensor library. A tensor is the list of its entries (exact
  reals); a parameter holds its data and its gradient, which is absent until a backward pass
  has run. Arithmetic on tensors is element by element; in the optimizer all operands have
  the shape of the parameter.
\<close>

type_synonym tensor = "real list"

definition t_scale :: "real \<Rightarrow> tensor \<Rightarrow> tensor" where
  "t_scale k t = map (\<lambda>x. k * x) t"

definition t_add :: "tensor \<Rightarrow> tensor \<Rightarrow> tensor" where
  "t_add a b = map2 (\<lambda>x y. x + y) a b"

definition t_sub :: "tensor \<Rightarrow> tensor \<Rightarrow> tensor" where
  "t_sub a b = map2 (\<lambda>x y. x - y) a b"

text \<open>
  The optimizer is the library's stochastic gradient descent. Its update is the documented
  one, with all its options: weight decay, momentum with dampening, Nesterov momentum and
  maximisation. \<open>SGD\<close> is the constructor as the notebook calls it, with the learning rate
  and the default for every other option. A parameter without gradient is skipped.
  \<open>manual_update\<close> is the notebook's own line
  \<open>w_after = w_before - 0.001 * w_before_grad\<close>.
\<close>

record param =
  data :: tensor
  grad :: "tensor option"

record sgd =
  lr :: real
  momentum :: real
  dampening :: real
  weight_decay :: real
  nesterov :: bool
  maximize :: bool
  momentum_buffer :: "nat \<Rightarrow> tensor option"

definition SGD :: "real \<Rightarrow> sgd" where
  "SGD learning_rate =
     \<lparr>lr = learning_rate, momentum = 0, dampening = 0, weight_decay = 0, nesterov = False,
      maximize = False, momentum_buffer = (\<lambda>_. None)\<rparr>"

definition sgd_param_step :: "sgd \<Rightarrow> nat \<Rightarrow> param \<Rightarrow> param \<times> tensor option" where
  "sgd_param_step opt i p =
     (case grad p of
        None \<Rightarrow> (p, momentum_buffer opt i)
      | Some g \<Rightarrow>
          let g1 = (if weight_decay opt \<noteq> 0 then t_add g (t_scale (weight_decay opt) (data p)) else g);
              b = (case momentum_buffer opt i of
                     None \<Rightarrow> g1
                   | Some b0 \<Rightarrow> t_add (t_scale (momentum opt) b0) (t_scale (1 - dampening opt) g1));
              g2 = (if momentum opt \<noteq> 0
                    then (if nesterov opt then t_add g1 (t_scale (momentum opt) b) else b)
                    else g1);
              buf = (if momentum opt \<noteq> 0 then Some b else momentum_buffer opt i)
          in (p\<lparr>data := (if maximize opt then t_add (data p) (t_scale (lr opt) g2)
                           else t_sub (data p) (t_scale (lr opt) g2))\<rparr>, buf))"

definition sgd_step :: "sgd \<Rightarrow> param list \<Rightarrow> param list \<times> sgd" where
  "sgd_step opt ps =
     (let rs = map (\<lambda>i. sgd_param_step opt i (ps ! i)) [0..<length ps]
      in (map fst rs,
          opt\<lparr>momentum_buffer :=
                (\<lambda>i. if i < length ps then snd (rs ! i) else momentum_buffer opt i)\<rparr>))"


section \<open>The training state and the library calls of one step\<close>

text \<open>
  The library's behaviour that the notebook does not fix is a parameter: the module's
  prediction for one input under given parameter data, the loss of one prediction, the
  gradients automatic differentiation yields for a batch, the order in which a shuffling
  loader visits the data set, and the two kinds of learning-rate scheduler. These library
  calls are taken to return normally. The training state holds the parameters, the optimizer,
  the module's mode, a counter of the loader iterations started, the sequence of library
  calls made so far, and the values shown in the progress bar.
  \<open>loss_fn\<close> is the cross-entropy loss with \<open>reduction='mean'\<close>: the mean of the losses of
  the samples of the batch.
\<close>

datatype event =
  TrainMode | ToDevice | ZeroGrad | Forward | Loss | Backward | Step | SetPostfix | SchedulerStep

record ('x, 'y, 'p, 'sch) torch =
  predict :: "tensor list \<Rightarrow> 'x \<Rightarrow> 'p"
  cross_entropy :: "'p \<Rightarrow> 'y \<Rightarrow> real"
  autograd :: "tensor list \<Rightarrow> ('x \<times> 'y) list \<Rightarrow> nat \<Rightarrow> tensor"
  sampler :: "nat \<Rightarrow> ('x \<times> 'y) list \<Rightarrow> ('x \<times> 'y) list"
  plateau_step :: "'sch \<Rightarrow> real \<Rightarrow> sgd \<Rightarrow> 'sch \<times> sgd"
  scheduler_step :: "'sch \<Rightarrow> sgd \<Rightarrow> 'sch \<times> sgd"

record trainer =
  params :: "param list"
  optimizer :: sgd
  training :: bool
  rng :: nat
  trace :: "event list"
  progress :: "real list"

definition emit :: "event \<Rightarrow> trainer \<Rightarrow> trainer" where
  "emit ev s = s\<lparr>trace := trace s @ [ev]\<rparr>"

definition model_train :: "trainer \<Rightarrow> trainer" where
  "model_train s = emit TrainMode (s\<lparr>training := True\<rparr>)"

definition to_device :: "'a \<Rightarrow> trainer \<Rightarrow> 'a \<times> trainer" where
  "to_device t s = (t, emit ToDevice s)"

definition zero_grad :: "trainer \<Rightarrow> trainer" where
  "zero_grad s = emit ZeroGrad (s\<lparr>params := map (\<lambda>p. p\<lparr>grad := None\<rparr>) (params s)\<rparr>)"

definition model_call :: "('x, 'y, 'p, 'sch) torch \<Rightarrow> 'x list \<Rightarrow> trainer \<Rightarrow> 'p list \<times> trainer" where
  "model_call lib x s = (map (predict lib (map data (params s))) x, emit Forward s)"

definition loss_fn :: "('x, 'y, 'p, 'sch) torch \<Rightarrow> 'p list \<Rightarrow> 'y list \<Rightarrow> trainer \<Rightarrow> real \<times> trainer" where
  "loss_fn lib y_pred y s =
     (sum_list (map2 (cross_entropy lib) y_pred y) / real (length y_pred), emit Loss s)"

definition accumulate :: "tensor option \<Rightarrow> tensor \<Rightarrow> tensor option" where
  "accumulate old g = (case old of None \<Rightarrow> Some g | Some g0 \<Rightarrow> Some (t_add g0 g))"

definition backward :: "('x, 'y, 'p, 'sch) torch \<Rightarrow> 'x list \<Rightarrow> 'y list \<Rightarrow> trainer \<Rightarrow> trainer" where
  "backward lib x y s =
     (let gs = autograd lib (map data (params s)) (zip x y)
      in emit Backward
           (s\<lparr>params := map (\<lambda>i. (params s ! i)\<lparr>grad := accumulate (grad (params s ! i)) (gs i)\<rparr>)
                             [0..<length (params s)]\<rparr>))"

definition optimizer_step :: "trainer \<Rightarrow> trainer" where
  "optimizer_step s =
     (let (ps, opt) = sgd_step (optimizer s) (params s)
      in emit Step (s\<lparr>params := ps, optimizer := opt\<rparr>))"

definition set_postfix :: "real \<Rightarrow> trainer \<Rightarrow> trainer" where
  "set_postfix v s = emit SetPostfix (s\<lparr>progress := progress s @ [v]\<rparr>)"

section \<open>The data loader\<close>

text \<open>
  A loader cuts the data set, in the order of its sampler, into batches of \<open>batch_size\<close>
  samples; the last batch may be shorter, and with \<open>drop_last\<close> only the full batches are
  yielded. A loader is built with a positive batch size.
\<close>

record ('x, 'y) data_loader =
  dataset :: "('x \<times> 'y) list"
  batch_size :: nat
  shuffle :: bool
  drop_last :: bool

function chunks :: "nat \<Rightarrow> 'a list \<Rightarrow> 'a list list" where
  "chunks n xs = (if n = 0 \<or> xs = [] then [] else take n xs # chunks n (drop n xs))"
  by pat_completeness auto
termination
  by (relation "measure (\<lambda>(n, xs). length xs)") auto

declare chunks.simps [simp del]

definition batches :: "('x, 'y, 'p, 'sch) torch \<Rightarrow> ('x, 'y) data_loader \<Rightarrow> nat \<Rightarrow> ('x \<times> 'y) list list" where
  "batches lib loader seed =
     (let order = (if shuffle loader then sampler lib seed (dataset loader) else dataset loader);
          bs = chunks (batch_size loader) order
      in if drop_last loader then filter (\<lambda>b. length b = batch_size loader) bs else bs)"

section \<open>\<open>train_epoch\<close>\<close>

definition train_batch :: "('x, 'y, 'p, 'sch) torch \<Rightarrow> ('x \<times> 'y) list \<Rightarrow> trainer \<Rightarrow> real \<times> trainer" where
  "train_batch lib batch s0 =
     (let (x, s1) = to_device (map fst batch) s0;
          (y, s2) = to_device (map snd batch) s1;
          s3 = zero_grad s2;
          (y_pred, s4) = model_call lib x s3;
          (loss, s5) = loss_fn lib y_pred y s4;
          s6 = backward lib x y s5;
          s7 = optimizer_step s6
      in (loss, s7))"

fun train_epoch_loop :: "('x, 'y, 'p, 'sch) torch \<Rightarrow> ('x \<times> 'y) list list \<Rightarrow> trainer \<Rightarrow> trainer" where
  "train_epoch_loop lib [] s = s"
| "train_epoch_loop lib (batch # rest) s =
     (let (loss, s') = train_batch lib batch s
      in train_epoch_loop lib rest (set_postfix loss s'))"

definition train_epoch :: "('x, 'y, 'p, 'sch) torch \<Rightarrow> ('x, 'y) data_loader \<Rightarrow> trainer \<Rightarrow> trainer" where
  "train_epoch lib train_loader s =
     (let s1 = model_train s;
          bs = batches lib train_loader (rng s1)
      in train_epoch_loop lib bs (s1\<lparr>rng := Suc (rng s1)\<rparr>))"

section \<open>\<open>train\<close>\<close>

text \<open>
  The scheduler argument is \<open>None\<close>, a \<open>ReduceLROnPlateau\<close>, which is stepped with the
  running average, or any other scheduler, which is stepped without argument.
\<close>

datatype 'sch lr_scheduler = NoScheduler | ReduceLROnPlateau 'sch | OtherScheduler 'sch

fun train_loss_loop ::
  "('x, 'y, 'p, 'sch) torch \<Rightarrow> ('x \<times> 'y) list list \<Rightarrow> real \<Rightarrow> trainer \<Rightarrow> real \<times> trainer" where
  "train_loss_loop lib [] running_avg_train_loss s = (running_avg_train_loss, s)"
| "train_loss_loop lib (batch # rest) running_avg_train_loss s =
     (let (loss, s') = train_batch lib batch s
      in train_loss_loop lib rest (running_avg_train_loss + loss * real (length batch)) s')"

definition lr_scheduler_step ::
  "('x, 'y, 'p, 'sch) torch \<Rightarrow> 'sch lr_scheduler \<Rightarrow> real \<Rightarrow> trainer \<Rightarrow> 'sch lr_scheduler \<times> trainer" where
  "lr_scheduler_step lib lr_scheduler running_avg_train_loss s =
     (case lr_scheduler of
        ReduceLROnPlateau st \<Rightarrow>
          (let (st', opt) = plateau_step lib st running_avg_train_loss (optimizer s)
           in (ReduceLROnPlateau st', emit SchedulerStep (s\<lparr>optimizer := opt\<rparr>)))
      | OtherScheduler st \<Rightarrow>
          (let (st', opt) = scheduler_step lib st (optimizer s)
           in (OtherScheduler st', emit SchedulerStep (s\<lparr>optimizer := opt\<rparr>)))
      | NoScheduler \<Rightarrow> (NoScheduler, s))"

definition train_one_epoch ::
  "('x, 'y, 'p, 'sch) torch \<Rightarrow> ('x, 'y) data_loader \<Rightarrow> 'sch lr_scheduler \<times> trainer \<Rightarrow>
   error + 'sch lr_scheduler \<times> trainer" where
  "train_one_epoch lib train_loader st =
     (let (lr_scheduler, s) = st;
          bs = batches lib train_loader (rng s);
          (total, s1) = train_loss_loop lib bs 0 (s\<lparr>rng := Suc (rng s)\<rparr>)
      in if length (dataset train_loader) = 0 then Inl ZeroDivisionError
         else
           (let running_avg_train_loss = total / real (length (dataset train_loader));
                (lr_scheduler', s2) = lr_scheduler_step lib lr_scheduler running_avg_train_loss s1
            in Inr (lr_scheduler', set_postfix running_avg_train_loss s2)))"

fun train ::
  "('x, 'y, 'p, 'sch) torch \<Rightarrow> ('x, 'y) data_loader \<Rightarrow> 'sch lr_scheduler \<times> trainer \<Rightarrow> nat \<Rightarrow>
   error + 'sch lr_scheduler \<times> trainer" where
  "train lib train_loader st 0 = Inr st"
| "train lib train_loader st (Suc n_epochs) =
     bind_err (train_one_epoch lib train_loader st) (\<lambda>st'. train lib train_loader st' n_epochs)"

section \<open>Notions used to state the properties of the training loops\<close>

text \<open>
  \<open>batch_events\<close> is the sequence of calls of one iteration of \<open>train_epoch\<close>;
  \<open>step_follows_backward\<close> holds of a sequence of calls when every \<open>optimizer.step\<close> comes
  directly after a \<open>loss.backward\<close>.
\<close>

definition batch_events :: "event list" where
  "batch_events = [ToDevice, ToDevice, ZeroGrad, Forward, Loss, Backward, Step, SetPostfix]"

fun preceded :: "event option \<Rightarrow> event list \<Rightarrow> bool" where
  "preceded prev [] = True"
| "preceded prev (e # rest) = ((e = Step \<longrightarrow> prev = Some Backward) \<and> preceded (Some e) rest)"

definition step_follows_backward :: "event list \<Rightarrow> bool" where
  "step_follows_backward tr = preceded None tr"

text \<open>
  \<open>weights_seen\<close> lists the parameter data each batch was evaluated with, \<open>batch_loss\<close> is
  the mean loss of a batch, \<open>sample_losses\<close> the losses of its samples.
  \<open>weighted_batch_losses\<close> is the sum over the yielded batches of mean batch loss times
  batch size; \<open>mean_processed_loss\<close> is the mean loss per sample over the samples that
  were processed.
\<close>

definition batch_loss :: "('x, 'y, 'p, 'sch) torch \<Rightarrow> tensor list \<Rightarrow> ('x \<times> 'y) list \<Rightarrow> real" where
  "batch_loss lib w batch =
     sum_list (map (\<lambda>(x, y). cross_entropy lib (predict lib w x) y) batch) / real (length batch)"

definition sample_losses :: "('x, 'y, 'p, 'sch) torch \<Rightarrow> tensor list \<Rightarrow> ('x \<times> 'y) list \<Rightarrow> real list" where
  "sample_losses lib w batch = map (\<lambda>(x, y). cross_entropy lib (predict lib w x) y) batch"

fun weights_seen :: "('x, 'y, 'p, 'sch) torch \<Rightarrow> ('x \<times> 'y) list list \<Rightarrow> trainer \<Rightarrow> tensor list list" where
  "weights_seen lib [] s = []"
| "weights_seen lib (batch # rest) s =
     map data (params s) # weights_seen lib rest (snd (train_batch lib batch s))"

definition processed_total :: "('x, 'y, 'p, 'sch) torch \<Rightarrow> ('x \<times> 'y) list list \<Rightarrow> trainer \<Rightarrow> real" where
  "processed_total lib bs s =
     (\<Sum>k<length bs. sum_list (sample_losses lib (weights_seen lib bs s ! k) (bs ! k)))"

definition processed_count :: "'a list list \<Rightarrow> nat" where
  "processed_count bs = (\<Sum>k<length bs. length (bs ! k))"

definition mean_processed_loss :: "('x, 'y, 'p, 'sch) torch \<Rightarrow> ('x \<times> 'y) list list \<Rightarrow> trainer \<Rightarrow> real" where
  "mean_processed_loss lib bs s = processed_total lib bs s / real (processed_count bs)"

definition weighted_batch_losses :: "('x, 'y, 'p, 'sch) torch \<Rightarrow> ('x \<times> 'y) list list \<Rightarrow> trainer \<Rightarrow> nat \<Rightarrow> real" where
  "weighted_batch_losses lib bs s B =
     (\<Sum>k<length bs. batch_loss lib (weights_seen lib bs s ! k) (bs ! k) * real B)"

text \<open>A small concrete library, loader and training state, used to evaluate the model.\<close>

definition example_torch :: "(real, real, real, unit) torch" where
  "example_torch =
     \<lparr>predict = (\<lambda>w x. x), cross_entropy = (\<lambda>p y. p + y), autograd = (\<lambda>w batch i. [1/2, 2]),
      sampler = (\<lambda>seed xs. rev xs), plateau_step = (\<lambda>st v opt. (st, opt)),
      scheduler_step = (\<lambda>st opt. (st, opt))\<rparr>"

definition example_loader :: "(real, real) data_loader" where
  "example_loader = \<lparr>dataset = [(1, 0), (2, 0), (3, 0)], batch_size = 2, shuffle = False, drop_last = True\<rparr>"

definition example_trainer :: trainer where
  "example_trainer =
     \<lparr>params = [\<lparr>data = [1, 3], grad = Some [1/2, 2]\<rparr>], optimizer = SGD 0.001, training = False,
      rng = 0, trace = [], progress = []\<rparr>"

section \<open>Properties of the array operations\<close>

lemma sum_list_upt: "sum_list (map f [0..<n]) = (\<Sum>i<n. f i)"
  by (simp add: interv_sum_list_conv_sum_set_nat atLeast0LessThan)

lemma bidx_lt: "i < len \<Longrightarrow> bidx len i = i"
  by (auto simp: bidx_def)

lemma is_mat_nrows: "is_mat r c A \<Longrightarrow> nrows A = r"
  by (simp add: is_mat_def nrows_def)

lemma is_mat_ncols_sq: "is_mat n n A \<Longrightarrow> ncols A = n"
  by (cases A) (auto simp: is_mat_def ncols_def)

lemma np_binop_mat_square:
  assumes "is_mat n n A" "is_mat n n B"
  shows "np_binop_mat f A B =
           Inr (map (\<lambda>i. map (\<lambda>j. f (A ! i ! j) (B ! i ! j)) [0..<n]) [0..<n])"
  using assms
  by (simp add: np_binop_mat_def is_mat_nrows is_mat_ncols_sq bcast_len_def bidx_lt)

lemma is_mat_tabulate: "is_mat r c (map (\<lambda>i. map (f i) [0..<c]) [0..<r])"
  by (simp add: is_mat_def list_all_iff)

lemma is_mat_np_scale: "is_mat r c A \<Longrightarrow> is_mat r c (np_scale k A)"
  by (simp add: is_mat_def np_scale_def list_all_iff)

lemma np_scale_nth: "is_mat r c A \<Longrightarrow> i < r \<Longrightarrow> j < c \<Longrightarrow> np_scale k A ! i ! j = k * A ! i ! j"
  by (simp add: np_scale_def is_mat_def list_all_length)

lemma np_trace_square: "is_mat n n A \<Longrightarrow> np_trace A = (\<Sum>i<n. A ! i ! i)"
  by (simp add: np_trace_def is_mat_nrows is_mat_ncols_sq sum_list_upt)

lemma np_matmul_square:
  assumes "is_mat n n A" "is_mat n n B"
  shows "np_matmul A B = Inr (matrix_product n A B)"
  using assms
  by (simp add: np_matmul_def matrix_product_def is_mat_nrows is_mat_ncols_sq sum_list_upt)

lemma np_sub_vec_same:
  "length a = length b \<Longrightarrow> np_sub_vec a b = Inr (map (\<lambda>i. a ! i - b ! i) [0..<length a])"
  by (simp add: np_sub_vec_def np_binop_vec_def bcast_len_def bidx_lt)

lemma mean_diff_squared_distance:
  "np_sum (np_square (map (\<lambda>i. a ! i - b ! i) [0..<length a])) = squared_distance a b"
proof -
  have "0 \<le> (\<Sum>i<length a. (a ! i - b ! i)\<^sup>2)"
    by (rule sum_nonneg) simp
  then show ?thesis
    by (simp add: np_sum_def np_square_def squared_distance_def comp_def sum_list_upt)
qed

lemma bcast_len_commute: "bcast_len n m = bcast_len m n"
  by (auto simp: bcast_len_def)

lemma np_add_mat_commute: "np_add_mat A B = np_add_mat B A"
  unfolding np_add_mat_def np_binop_mat_def
  by (simp add: bcast_len_commute [of "nrows A"] bcast_len_commute [of "ncols A"] add.commute
      split: option.splits)

lemma np_sub_vec_swap:
  "(case np_sub_vec a b of Inl e \<Rightarrow> Inl e | Inr d \<Rightarrow> Inr (np_sum (np_square d))) =
   (case np_sub_vec b a of Inl e \<Rightarrow> Inl e | Inr d \<Rightarrow> Inr (np_sum (np_square d)))"
  unfolding np_sub_vec_def np_binop_vec_def np_sum_def np_square_def
  by (simp add: bcast_len_commute [of "length a"] comp_def power2_commute [of "a ! _"]
      split: option.splits)

section \<open>Uniqueness of the positive semi-definite square root\<close>







lemma length_four: "length v = 4 \<Longrightarrow> \<exists>a b c d. v = [a, b, c, d]"
  by (auto simp: length_Suc_conv eval_nat_numeral)



lemma quad_form_four:
  "quad_form A [a, b, c, d] =
     a * A ! 0 ! 0 * a + a * A ! 0 ! 1 * b + a * A ! 0 ! 2 * c + a * A ! 0 ! 3 * d
   + b * A ! 1 ! 0 * a + b * A ! 1 ! 1 * b + b * A ! 1 ! 2 * c + b * A ! 1 ! 3 * d
   + c * A ! 2 ! 0 * a + c * A ! 2 ! 1 * b + c * A ! 2 ! 2 * c + c * A ! 2 ! 3 * d
   + d * A ! 3 ! 0 * a + d * A ! 3 ! 1 * b + d * A ! 3 ! 2 * c + d * A ! 3 ! 3 * d"
  by (simp add: quad_form_def lessThan_Suc eval_nat_numeral)

lemma symmetric_four:
  assumes "is_mat 4 4 A"
    and "A ! 0 ! 1 = A ! 1 ! 0" "A ! 0 ! 2 = A ! 2 ! 0" "A ! 0 ! 3 = A ! 3 ! 0"
    and "A ! 1 ! 2 = A ! 2 ! 1" "A ! 1 ! 3 = A ! 3 ! 1" "A ! 2 ! 3 = A ! 3 ! 2"
  shows "symmetric 4 A"
proof -
  have four: "i = 0 \<or> i = 1 \<or> i = 2 \<or> i = 3" if "i < 4" for i :: nat
    using that by auto
  have "A ! i ! j = A ! j ! i" if "i < 4" "j < 4" for i j
    using four [OF that(1)] four [OF that(2)] assms(2-) by auto
  with assms(1) show ?thesis by (simp add: symmetric_def)
qed

lemma sigma_real_quad:
  "quad_form sigma_real [a, b, c, d] =
     1/5 * (a + b/2 + c/4 + d/10)\<^sup>2 + 1/4 * (b + 3*c/10 + 4*d/25)\<^sup>2
     + 73/200 * (c + 83*d/365)\<^sup>2 + 12609/73000 * d\<^sup>2"
  unfolding quad_form_four sigma_real_def
  by (simp add: power2_eq_square algebra_simps)

lemma sigma1_quad:
  "quad_form sigma1 [a, b, c, d] =
     7/10 * (a + b/7 + c/14 + d/35)\<^sup>2 + 13/70 * (b + c/2 + 33*d/130)\<^sup>2
     + 1/4 * (c + 3*d/10)\<^sup>2 + 2989/26000 * d\<^sup>2"
  unfolding quad_form_four sigma1_def
  by (simp add: power2_eq_square algebra_simps)

lemma sigma2_quad:
  "quad_form sigma2 [a, b, c, d] =
     2/5 * (a + b/8 + c/8 + d/40)\<^sup>2 + 47/160 * (b + 15*c/47 + 39*d/235)\<^sup>2
     + 77/470 * (c + 78*d/385)\<^sup>2 + 356/1925 * d\<^sup>2"
  unfolding quad_form_four sigma2_def
  by (simp add: power2_eq_square algebra_simps)

lemma pos_semidef_fourI:
  assumes "\<And>a b c d. 0 \<le> quad_form A [a, b, c, d]"
  shows "pos_semidef 4 A"
  unfolding pos_semidef_def
proof (intro allI impI)
  fix v :: vec assume "length v = 4"
  from length_four [OF this] obtain a b c d where "v = [a, b, c, d]" by blast
  with assms show "0 \<le> quad_form A v" by simp
qed

section \<open>Evaluation of the distance function on well-shaped inputs\<close>

lemma calculate_fid_value:
  assumes "length a = length b" and "is_mat n n A" and "is_mat n n B"
    and "routine (matrix_product n A B) = Inr (R, e)" and "is_mat n n R"
  shows "calculate_fid routine a A b B =
           Inr (np_sum (np_square (map (\<lambda>i. a ! i - b ! i) [0..<length a]))
                + (\<Sum>i<n. A ! i ! i + B ! i ! i - 2 * R ! i ! i))"
proof -
  let ?S = "map (\<lambda>i. map (\<lambda>j. A ! i ! j + B ! i ! j) [0..<n]) [0..<n]"
  let ?D = "map (\<lambda>i. map (\<lambda>j. ?S ! i ! j - np_scale 2 R ! i ! j) [0..<n]) [0..<n]"
  have add: "np_add_mat A B = Inr ?S"
    using assms(2,3) by (simp add: np_add_mat_def np_binop_mat_square)
  have sub: "np_sub_mat ?S (np_scale 2 R) = Inr ?D"
    unfolding np_sub_mat_def
    by (rule np_binop_mat_square [OF is_mat_tabulate is_mat_np_scale [OF assms(5)]])
  have tr: "np_trace ?D = (\<Sum>i<n. A ! i ! i + B ! i ! i - 2 * R ! i ! i)"
    using assms(5)
    by (simp add: np_trace_square [OF is_mat_tabulate] np_scale_nth)
  note diff = np_sub_vec_same [OF assms(1)]
  show ?thesis
    unfolding calculate_fid_def diff np_matmul_square [OF assms(2,3)] add
    by (simp add: bind_err_def assms(4) sub tr)
qed

section \<open>The two distances of the script\<close>

text \<open>
  On the hard-coded statistics the distance is an exact rational minus twice the trace of the
  matrix the square root routine returns: the squared distances of the means are \<open>1/10\<close> and
  \<open>11/50\<close>, the traces of the covariances \<open>11/10\<close>, \<open>27/20\<close> and \<open>11/10\<close>. Which set the script
  names is decided by the comparison of the two results.
\<close>

lemma is_mat_sigmas: "is_mat 4 4 sigma_real" "is_mat 4 4 sigma1" "is_mat 4 4 sigma2"
  by (simp_all add: is_mat_def sigma_real_def sigma1_def sigma2_def)

lemma sum_four: "(\<Sum>i<(4::nat). f i) = f 0 + f 1 + f 2 + (f 3 :: real)"
  by (simp add: lessThan_Suc eval_nat_numeral)

lemma fid1_value:
  assumes "routine (matrix_product 4 sigma_real sigma1) = Inr (R, e)" and "is_mat 4 4 R"
  shows "calculate_fid routine mu_real sigma_real mu1 sigma1 =
           Inr (51 / 20 - 2 * (R ! 0 ! 0 + R ! 1 ! 1 + R ! 2 ! 2 + R ! 3 ! 3))"
proof -
  have len: "length mu_real = length mu1" by (simp add: mu_real_def mu1_def)
  have md: "np_sum (np_square (map (\<lambda>i. mu_real ! i - mu1 ! i) [0..<length mu_real])) = 1 / 10"
    by (simp add: np_sum_def np_square_def mu_real_def mu1_def upt_rec power2_eq_square)
  have tr: "(\<Sum>i<4. sigma_real ! i ! i + sigma1 ! i ! i - 2 * R ! i ! i) =
      49 / 20 - 2 * (R ! 0 ! 0 + R ! 1 ! 1 + R ! 2 ! 2 + R ! 3 ! 3)"
    unfolding sum_four by (simp add: sigma_real_def sigma1_def)
  show ?thesis
    unfolding calculate_fid_value [where routine = routine, OF len is_mat_sigmas(1,2) assms] md tr
    by simp
qed

lemma fid2_value:
  assumes "routine (matrix_product 4 sigma_real sigma2) = Inr (R, e)" and "is_mat 4 4 R"
  shows "calculate_fid routine mu_real sigma_real mu2 sigma2 =
           Inr (121 / 50 - 2 * (R ! 0 ! 0 + R ! 1 ! 1 + R ! 2 ! 2 + R ! 3 ! 3))"
proof -
  have len: "length mu_real = length mu2" by (simp add: mu_real_def mu2_def)
  have md: "np_sum (np_square (map (\<lambda>i. mu_real ! i - mu2 ! i) [0..<length mu_real])) = 11 / 50"
    by (simp add: np_sum_def np_square_def mu_real_def mu2_def upt_rec power2_eq_square)
  have tr: "(\<Sum>i<4. sigma_real ! i ! i + sigma2 ! i ! i - 2 * R ! i ! i) =
      11 / 5 - 2 * (R ! 0 ! 0 + R ! 1 ! 1 + R ! 2 ! 2 + R ! 3 ! 3)"
    unfolding sum_four by (simp add: sigma_real_def sigma2_def)
  show ?thesis
    unfolding calculate_fid_value [where routine = routine, OF len is_mat_sigmas(1,3) assms] md tr
    by simp
qed

lemma script_last_line:
  assumes "calculate_fid routine mu_real sigma_real mu1 sigma1 = Inr fid1"
    and "calculate_fid routine mu_real sigma_real mu2 sigma2 = Inr fid2"
  shows "\<exists>out. script routine format_4f = Inr out \<and>
           (last out = ''Based on FID score, Fake Image Set I is better'' \<longleftrightarrow> fid1 < fid2)"
  using assms by (simp add: script_def bind_err_def better_def)

section \<open>The distance function computes the specified formula\<close>

text \<open>
  Claim C1. For mean vectors of equal length and covariance matrices of equal dimension
  \<open>n \<times> n\<close>, when the square root routine returns the \<open>n \<times> n\<close> matrix \<open>R\<close> for the product
  of the covariances, \<open>calculate_fid\<close> returns the squared Euclidean distance between the
  means plus the trace of \<open>real_sigma + x_sigma - 2 R\<close>.
\<close>

theorem calculate_fid_formula:
  assumes "length a = length b" and "is_mat n n A" and "is_mat n n B"
    and "routine (matrix_product n A B) = Inr (R, e)" and "is_mat n n R"
  shows "calculate_fid routine a A b B = Inr (fid_formula n a A b B R)"
  unfolding calculate_fid_value [where routine = routine, OF assms]
  by (simp add: mean_diff_squared_distance fid_formula_def trace_of_def)

theorem calculate_fid_formula_witness:
  "calculate_fid (constant_routine [[2, 0], [0, 3]]) [1, 2] [[4, 0], [0, 9]] [0, 0] [[1, 0], [0, 1]]
     = Inr 10"
  using calculate_fid_formula [of "[1, 2]" "[0, 0]" 2 "[[4, 0], [0, 9]]" "[[1, 0], [0, 1]]"
      "constant_routine [[2, 0], [0, 3]]" "[[2, 0], [0, 3]]" 0]
  by (simp add: constant_routine_def is_mat_def fid_formula_def squared_distance_def trace_of_def lessThan_Suc
      eval_nat_numeral)

section \<open>Symmetry under swapping the two distributions\<close>

text \<open>
  Claim C4. When the two covariance matrices commute, that is \<open>sigma_a @ sigma_b\<close> and
  \<open>sigma_b @ sigma_a\<close> are the same array, \<open>calculate_fid\<close> gives the same outcome on
  \<open>(mu_a, sigma_a, mu_b, sigma_b)\<close> and on \<open>(mu_b, sigma_b, mu_a, sigma_a)\<close>, whatever the
  square root routine is. Symmetry and positive semi-definiteness of the covariances are
  not needed.
\<close>

theorem calculate_fid_swap:
  assumes "np_matmul A B = np_matmul B A"
  shows "calculate_fid routine a A b B = calculate_fid routine b B a A"
proof -
  show ?thesis
  proof (cases "np_sub_vec a b")
    case (Inl e)
    with np_sub_vec_swap [of a b] have "np_sub_vec b a = Inl e"
      by (simp split: sum.splits)
    with Inl show ?thesis by (simp add: calculate_fid_def bind_err_def)
  next
    case (Inr d)
    with np_sub_vec_swap [of a b] obtain d' where d': "np_sub_vec b a = Inr d'"
      "np_sum (np_square d) = np_sum (np_square d')"
      by (auto split: sum.splits)
    show ?thesis
      using Inr d' assms np_add_mat_commute [of A B]
      by (simp add: calculate_fid_def bind_err_def Let_def split: sum.splits)
  qed
qed

theorem calculate_fid_swap_witness:
  "np_matmul [[2, 0], [0, 3]] [[1, 0], [0, 5]] = np_matmul [[1, 0], [0, 5]] [[2, 0], [0, 3]] \<and>
   calculate_fid echo_routine [1, 2] [[2, 0], [0, 3]] [3, 5] [[1, 0], [0, 5]] =
   calculate_fid echo_routine [3, 5] [[1, 0], [0, 5]] [1, 2] [[2, 0], [0, 3]]"
proof -
  have h: "np_matmul [[2, 0], [0, 3]] [[1, 0], [0, 5]] = np_matmul [[1, 0], [0, 5]] [[2, 0], [0, 3]]"
    by (simp add: np_matmul_def nrows_def ncols_def upt_rec)
  show ?thesis
    using h calculate_fid_swap [OF h, of echo_routine "[1, 2]" "[3, 5]"] by simp
qed

section \<open>Identical distributions\<close>



section \<open>The hard-coded covariance matrices\<close>

text \<open>
  Claim C5. Each of the three hard-coded \<open>4 \<times> 4\<close> covariance matrices \<open>sigma_real\<close>, \<open>sigma1\<close>
  and \<open>sigma2\<close> is symmetric and positive semi-definite. Each quadratic form is a sum of
  four squares with positive weights.
\<close>

theorem hard_coded_covariances_sym_psd:
  "sym_psd 4 sigma_real \<and> sym_psd 4 sigma1 \<and> sym_psd 4 sigma2"
proof (intro conjI)
  show "sym_psd 4 sigma_real"
    unfolding sym_psd_def
  proof
    show "symmetric 4 sigma_real"
      by (rule symmetric_four) (simp_all add: sigma_real_def is_mat_def)
    show "pos_semidef 4 sigma_real"
      by (rule pos_semidef_fourI) (simp add: sigma_real_quad)
  qed
  show "sym_psd 4 sigma1"
    unfolding sym_psd_def
  proof
    show "symmetric 4 sigma1"
      by (rule symmetric_four) (simp_all add: sigma1_def is_mat_def)
    show "pos_semidef 4 sigma1"
      by (rule pos_semidef_fourI) (simp add: sigma1_quad)
  qed
  show "sym_psd 4 sigma2"
    unfolding sym_psd_def
  proof
    show "symmetric 4 sigma2"
      by (rule symmetric_four) (simp_all add: sigma2_def is_mat_def)
    show "pos_semidef 4 sigma2"
      by (rule pos_semidef_fourI) (simp add: sigma2_quad)
  qed
qed

theorem hard_coded_covariances_witness:
  "0 \<le> quad_form sigma1 [1, -5, 2, 0] \<and> sigma2 ! 0 ! 3 = sigma2 ! 3 ! 0"
  using hard_coded_covariances_sym_psd
  unfolding sym_psd_def pos_semidef_def symmetric_def by simp

section \<open>The distance function on the store: frame and result\<close>

lemma extends_refl: "extends s s"
  by (simp add: extends_def)

lemma extends_trans: "extends s t \<Longrightarrow> extends t u \<Longrightarrow> extends s u"
  by (auto simp: extends_def)

lemma allocates_only_return: "allocates_only (py_return x)"
  by (simp add: allocates_only_def py_return_def extends_refl)

lemma allocates_only_lift: "allocates_only (py_lift r)"
  by (simp add: allocates_only_def py_lift_def extends_refl)

lemma allocates_only_get_vec: "allocates_only (get_vec r)"
  by (simp add: allocates_only_def get_vec_def extends_refl split: option.splits ndarray.splits)

lemma allocates_only_get_mat: "allocates_only (get_mat r)"
  by (simp add: allocates_only_def get_mat_def extends_refl split: option.splits ndarray.splits)

lemma allocates_only_new_array: "allocates_only (new_array a)"
  by (simp add: allocates_only_def new_array_def extends_def)

lemma allocates_only_bind:
  assumes "allocates_only m" and "\<And>x. allocates_only (f x)"
  shows "allocates_only (py_bind m f)"
  unfolding allocates_only_def
proof
  fix s
  obtain r s' where ms: "m s = (r, s')" by (cases "m s")
  have e1: "extends s s'" using assms(1) ms by (auto simp: allocates_only_def dest: spec [of _ s])
  show "extends s (snd (py_bind m f s))"
  proof (cases r)
    case (Inl e)
    with ms e1 show ?thesis by (simp add: py_bind_def)
  next
    case (Inr x)
    have "extends s' (snd (f x s'))" using assms(2) by (simp add: allocates_only_def)
    with ms Inr e1 show ?thesis by (auto simp: py_bind_def intro: extends_trans)
  qed
qed

lemmas allocates_only_intros =
  allocates_only_bind allocates_only_return allocates_only_lift allocates_only_get_vec
  allocates_only_get_mat allocates_only_new_array

lemma allocates_only_sqrtm: "allocates_only (sqrtm core x False)"
  unfolding sqrtm_def by (intro allocates_only_intros) (simp add: allocates_only_return)

lemma allocates_only_calculate_fid_run:
  "allocates_only (calculate_fid_run core real_mu real_sigma x_mu x_sigma)"
  unfolding calculate_fid_run_def vec_sub_def vec_square_def vec_sum_def mat_matmul_def
    mat_add_def mat_sub_def mat_scale_def mat_trace_def
  by (intro allocates_only_intros allocates_only_sqrtm)
     (simp add: split_def allocates_only_intros allocates_only_sqrtm)+

lemma extends_keeps: "extends s s' \<Longrightarrow> heap_wf s \<Longrightarrow> heap s r = Some a \<Longrightarrow> heap s' r = Some a"
  by (auto simp: extends_def heap_wf_def)

lemma new_array_run:
  assumes "heap_wf s"
  shows "\<exists>r s'. new_array a s = (Inr r, s') \<and> extends s s' \<and> heap_wf s' \<and> heap s' r = Some a"
  using assms by (auto simp: new_array_def extends_def heap_wf_def less_Suc_eq)

lemma vec_sub_fail:
  "heap s x = Some (Vec a) \<Longrightarrow> heap s y = Some (Vec b) \<Longrightarrow> np_sub_vec a b = Inl e \<Longrightarrow>
   vec_sub x y s = (Inl e, s)"
  by (simp add: vec_sub_def py_bind_def get_vec_def py_lift_def)

lemma vec_sub_run:
  assumes "heap s x = Some (Vec a)" "heap s y = Some (Vec b)" "np_sub_vec a b = Inr v" "heap_wf s"
  shows "\<exists>r s'. vec_sub x y s = (Inr r, s') \<and> extends s s' \<and> heap_wf s' \<and> heap s' r = Some (Vec v)"
  using new_array_run [OF assms(4), of "Vec v"] assms(1-3)
  by (simp add: vec_sub_def py_bind_def get_vec_def py_lift_def)

lemma vec_square_run:
  assumes "heap s x = Some (Vec a)" "heap_wf s"
  shows "\<exists>r s'. vec_square x s = (Inr r, s') \<and> extends s s' \<and> heap_wf s' \<and>
           heap s' r = Some (Vec (np_square a))"
  using new_array_run [OF assms(2), of "Vec (np_square a)"] assms(1)
  by (simp add: vec_square_def py_bind_def get_vec_def)

lemma vec_sum_run: "heap s x = Some (Vec a) \<Longrightarrow> vec_sum x s = (Inr (np_sum a), s)"
  by (simp add: vec_sum_def py_bind_def get_vec_def py_return_def)

lemma mat_trace_run: "heap s x = Some (Mat A) \<Longrightarrow> mat_trace x s = (Inr (np_trace A), s)"
  by (simp add: mat_trace_def py_bind_def get_mat_def py_return_def)

lemma mat_matmul_fail:
  "heap s x = Some (Mat A) \<Longrightarrow> heap s y = Some (Mat B) \<Longrightarrow> np_matmul A B = Inl e \<Longrightarrow>
   mat_matmul x y s = (Inl e, s)"
  by (simp add: mat_matmul_def py_bind_def get_mat_def py_lift_def)

lemma mat_matmul_run:
  assumes "heap s x = Some (Mat A)" "heap s y = Some (Mat B)" "np_matmul A B = Inr P" "heap_wf s"
  shows "\<exists>r s'. mat_matmul x y s = (Inr r, s') \<and> extends s s' \<and> heap_wf s' \<and> heap s' r = Some (Mat P)"
  using new_array_run [OF assms(4), of "Mat P"] assms(1-3)
  by (simp add: mat_matmul_def py_bind_def get_mat_def py_lift_def)

lemma mat_add_fail:
  "heap s x = Some (Mat A) \<Longrightarrow> heap s y = Some (Mat B) \<Longrightarrow> np_add_mat A B = Inl e \<Longrightarrow>
   mat_add x y s = (Inl e, s)"
  by (simp add: mat_add_def py_bind_def get_mat_def py_lift_def)

lemma mat_add_run:
  assumes "heap s x = Some (Mat A)" "heap s y = Some (Mat B)" "np_add_mat A B = Inr P" "heap_wf s"
  shows "\<exists>r s'. mat_add x y s = (Inr r, s') \<and> extends s s' \<and> heap_wf s' \<and> heap s' r = Some (Mat P)"
  using new_array_run [OF assms(4), of "Mat P"] assms(1-3)
  by (simp add: mat_add_def py_bind_def get_mat_def py_lift_def)

lemma mat_sub_fail:
  "heap s x = Some (Mat A) \<Longrightarrow> heap s y = Some (Mat B) \<Longrightarrow> np_sub_mat A B = Inl e \<Longrightarrow>
   mat_sub x y s = (Inl e, s)"
  by (simp add: mat_sub_def py_bind_def get_mat_def py_lift_def)

lemma mat_sub_run:
  assumes "heap s x = Some (Mat A)" "heap s y = Some (Mat B)" "np_sub_mat A B = Inr P" "heap_wf s"
  shows "\<exists>r s'. mat_sub x y s = (Inr r, s') \<and> extends s s' \<and> heap_wf s' \<and> heap s' r = Some (Mat P)"
  using new_array_run [OF assms(4), of "Mat P"] assms(1-3)
  by (simp add: mat_sub_def py_bind_def get_mat_def py_lift_def)

lemma mat_scale_run:
  assumes "heap s x = Some (Mat A)" "heap_wf s"
  shows "\<exists>r s'. mat_scale k x s = (Inr r, s') \<and> extends s s' \<and> heap_wf s' \<and>
           heap s' r = Some (Mat (np_scale k A))"
  using new_array_run [OF assms(2), of "Mat (np_scale k A)"] assms(1)
  by (simp add: mat_scale_def py_bind_def get_mat_def)

lemma sqrtm_fail:
  "heap s x = Some (Mat A) \<Longrightarrow> core A = Inl e \<Longrightarrow> sqrtm core x disp s = (Inl e, s)"
  by (simp add: sqrtm_def py_bind_def get_mat_def py_lift_def)

lemma sqrtm_run:
  assumes "heap s x = Some (Mat A)" "core A = Inr out" "heap_wf s"
  shows "\<exists>r s'. sqrtm core x False s = (Inr (r, Some (errest out)), s') \<and> extends s s' \<and>
           heap_wf s' \<and> heap s' r = Some (Mat (root out))"
  using new_array_run [OF assms(3), of "Mat (root out)"] assms(1,2)
  by (auto simp: sqrtm_def py_bind_def get_mat_def py_lift_def py_return_def)

lemma calculate_fid_run_value:
  assumes rm: "heap s real_mu = Some (Vec a)" and rs: "heap s real_sigma = Some (Mat A)"
    and xm: "heap s x_mu = Some (Vec b)" and xs: "heap s x_sigma = Some (Mat B)"
    and wf: "heap_wf s"
  shows "fst (calculate_fid_run core real_mu real_sigma x_mu x_sigma s) =
           calculate_fid (sqrtm_nodisp core) a A b B"
proof (cases "np_sub_vec a b")
  case (Inl e)
  then show ?thesis
    by (simp add: calculate_fid_run_def py_bind_def calculate_fid_def bind_err_def
        vec_sub_fail [OF rm xm Inl])
next
  case diff: (Inr dv)
  from vec_sub_run [OF rm xm diff wf] obtain r1 s1 where
    1: "vec_sub real_mu x_mu s = (Inr r1, s1)" "extends s s1" "heap_wf s1" "heap s1 r1 = Some (Vec dv)"
    by blast
  from vec_square_run [OF 1(4) 1(3)] obtain r2 s2 where
    2: "vec_square r1 s1 = (Inr r2, s2)" "extends s1 s2" "heap_wf s2"
       "heap s2 r2 = Some (Vec (np_square dv))"
    by blast
  note 3 = vec_sum_run [OF 2(4)]
  have e2: "extends s s2" using 1(2) 2(2) by (rule extends_trans)
  note rs2 = extends_keeps [OF e2 wf rs] and xs2 = extends_keeps [OF e2 wf xs]
  note run = calculate_fid_run_def py_bind_def py_return_def 1(1) 2(1) 3
  note val = calculate_fid_def bind_err_def sqrtm_nodisp_def diff
  show ?thesis
  proof (cases "np_matmul A B")
    case (Inl e)
    show ?thesis
      using Inl by (simp add: run val mat_matmul_fail [OF rs2 xs2 Inl])
  next
    case prod: (Inr P)
    from mat_matmul_run [OF rs2 xs2 prod 2(3)] obtain r4 s4 where
      4: "mat_matmul real_sigma x_sigma s2 = (Inr r4, s4)" "extends s2 s4" "heap_wf s4"
         "heap s4 r4 = Some (Mat P)"
      by blast
    note rs4 = extends_keeps [OF 4(2) 2(3) rs2] and xs4 = extends_keeps [OF 4(2) 2(3) xs2]
    show ?thesis
    proof (cases "core P")
      case (Inl e)
      show ?thesis
        using prod Inl by (simp add: run val 4(1) sqrtm_fail [where core = core, OF 4(4) Inl])
    next
      case out: (Inr out)
      from sqrtm_run [where core = core, OF 4(4) out 4(3)] obtain r5 s5 where
        5: "sqrtm core r4 False s4 = (Inr (r5, Some (errest out)), s5)" "extends s4 s5"
           "heap_wf s5" "heap s5 r5 = Some (Mat (root out))"
        by blast
      note rs5 = extends_keeps [OF 5(2) 4(3) rs4] and xs5 = extends_keeps [OF 5(2) 4(3) xs4]
      show ?thesis
      proof (cases "np_add_mat A B")
        case (Inl e)
        show ?thesis
          using prod out Inl by (simp add: run val 4(1) 5(1) mat_add_fail [OF rs5 xs5 Inl])
      next
        case add: (Inr S)
        from mat_add_run [OF rs5 xs5 add 5(3)] obtain r6 s6 where
          6: "mat_add real_sigma x_sigma s5 = (Inr r6, s6)" "extends s5 s6" "heap_wf s6"
             "heap s6 r6 = Some (Mat S)"
          by blast
        note c6 = extends_keeps [OF 6(2) 5(3) 5(4)]
        from mat_scale_run [OF c6 6(3)] obtain r7 s7 where
          7: "mat_scale 2 r5 s6 = (Inr r7, s7)" "extends s6 s7" "heap_wf s7"
             "heap s7 r7 = Some (Mat (np_scale 2 (root out)))"
          by blast
        note S7 = extends_keeps [OF 7(2) 6(3) 6(4)]
        show ?thesis
        proof (cases "np_sub_mat S (np_scale 2 (root out))")
          case (Inl e)
          show ?thesis
            using prod out add Inl
            by (simp add: run val 4(1) 5(1) 6(1) 7(1) mat_sub_fail [OF S7 7(4) Inl])
        next
          case sub: (Inr Dm)
          from mat_sub_run [OF S7 7(4) sub 7(3)] obtain r8 s8 where
            8: "mat_sub r6 r7 s7 = (Inr r8, s8)" "extends s7 s8" "heap_wf s8"
               "heap s8 r8 = Some (Mat Dm)"
            by blast
          note 9 = mat_trace_run [OF 8(4)]
          show ?thesis
            using prod out add sub
            by (simp add: run val 4(1) 5(1) 6(1) 7(1) 8(1) 9)
        qed
      qed
    qed
  qed
qed

lemma heap_wf_example: "heap_wf example_state"
  by (auto simp: heap_wf_def example_state_def split: if_splits)

lemma calculate_fid_root_only:
  assumes "\<And>P. map_sum id fst (sq P) = map_sum id fst (sq' P)"
  shows "calculate_fid sq a A b B = calculate_fid sq' a A b B"
proof -
  have "bind_err (sq P) (\<lambda>(covmean, _). f covmean) = bind_err (sq' P) (\<lambda>(covmean, _). f covmean)"
    for P and f :: "mat \<Rightarrow> error + real"
    using assms [of P]
    by (cases "sq P"; cases "sq' P") (auto simp: bind_err_def)
  then show ?thesis
    by (simp add: calculate_fid_def)
qed

section \<open>Failures of the library routines\<close>

text \<open>
  Claim C6, as amended. An exception raised by any of the library routines that
  \<open>calculate_fid\<close> calls (the subtraction of the means, the matrix product, the square root
  routine, the sum and the difference of the matrices) propagates out of \<open>calculate_fid\<close>
  unchanged: the first call that raises determines the outcome. The square root routine is
  called with \<open>disp=False\<close>: \<open>calculate_fid\<close> prints nothing, whatever the routine
  reports, and its outcome does not depend on the failure flag or the error estimate of the
  routine.
\<close>

theorem calculate_fid_failure_reporting:
  assumes "heap s real_mu = Some (Vec a)" and "heap s real_sigma = Some (Mat A)"
    and "heap s x_mu = Some (Vec b)" and "heap s x_sigma = Some (Mat B)" and "heap_wf s"
  shows
   "(np_sub_vec a b = Inl e \<longrightarrow>
       fst (calculate_fid_run core real_mu real_sigma x_mu x_sigma s) = Inl e) \<and>
    (\<forall>d. np_sub_vec a b = Inr d \<and> np_matmul A B = Inl e \<longrightarrow>
       fst (calculate_fid_run core real_mu real_sigma x_mu x_sigma s) = Inl e) \<and>
    (\<forall>d P. np_sub_vec a b = Inr d \<and> np_matmul A B = Inr P \<and> core P = Inl e \<longrightarrow>
       fst (calculate_fid_run core real_mu real_sigma x_mu x_sigma s) = Inl e) \<and>
    (\<forall>d P out. np_sub_vec a b = Inr d \<and> np_matmul A B = Inr P \<and> core P = Inr out \<and>
       np_add_mat A B = Inl e \<longrightarrow>
       fst (calculate_fid_run core real_mu real_sigma x_mu x_sigma s) = Inl e) \<and>
    (\<forall>d P out S. np_sub_vec a b = Inr d \<and> np_matmul A B = Inr P \<and> core P = Inr out \<and>
       np_add_mat A B = Inr S \<and> np_sub_mat S (np_scale 2 (root out)) = Inl e \<longrightarrow>
       fst (calculate_fid_run core real_mu real_sigma x_mu x_sigma s) = Inl e) \<and>
    stdout (snd (calculate_fid_run core real_mu real_sigma x_mu x_sigma s)) = stdout s \<and>
    (\<forall>core'. (\<forall>P. map_sum id root (core' P) = map_sum id root (core P)) \<longrightarrow>
       fst (calculate_fid_run core' real_mu real_sigma x_mu x_sigma s) =
       fst (calculate_fid_run core real_mu real_sigma x_mu x_sigma s))"
proof -
  note val = calculate_fid_run_value [OF assms] calculate_fid_def bind_err_def sqrtm_nodisp_def
  have ext: "extends s (snd (calculate_fid_run core real_mu real_sigma x_mu x_sigma s))"
    using allocates_only_calculate_fid_run by (simp add: allocates_only_def)
  have out: "stdout (snd (calculate_fid_run core real_mu real_sigma x_mu x_sigma s)) = stdout s"
    using ext by (simp add: extends_def)
  have same: "calculate_fid (sqrtm_nodisp core') a A b B = calculate_fid (sqrtm_nodisp core) a A b B"
    if "\<forall>P. map_sum id root (core' P) = map_sum id root (core P)" for core'
  proof (rule calculate_fid_root_only)
    fix P
    have "map_sum id root (core' P) = map_sum id root (core P)"
      using that by simp
    then show "map_sum id fst (sqrtm_nodisp core' P) = map_sum id fst (sqrtm_nodisp core P)"
      by (cases "core P"; cases "core' P") (simp_all add: sqrtm_nodisp_def)
  qed
  have indep: "\<forall>core'. (\<forall>P. map_sum id root (core' P) = map_sum id root (core P)) \<longrightarrow>
       fst (calculate_fid_run core' real_mu real_sigma x_mu x_sigma s) =
       fst (calculate_fid_run core real_mu real_sigma x_mu x_sigma s)"
  proof (intro allI impI)
    fix core' :: sqrtm_core
    assume "\<forall>P. map_sum id root (core' P) = map_sum id root (core P)"
    then have "calculate_fid (sqrtm_nodisp core') a A b B = calculate_fid (sqrtm_nodisp core) a A b B"
      by (rule same)
    then show "fst (calculate_fid_run core' real_mu real_sigma x_mu x_sigma s) =
       fst (calculate_fid_run core real_mu real_sigma x_mu x_sigma s)"
      by (simp only: calculate_fid_run_value [OF assms])
  qed
  have r1: "np_sub_vec a b = Inl e \<longrightarrow>
       fst (calculate_fid_run core real_mu real_sigma x_mu x_sigma s) = Inl e"
    by (simp add: val)
  have r2: "\<forall>d. np_sub_vec a b = Inr d \<and> np_matmul A B = Inl e \<longrightarrow>
       fst (calculate_fid_run core real_mu real_sigma x_mu x_sigma s) = Inl e"
    by (simp add: val)
  have r3: "\<forall>d P. np_sub_vec a b = Inr d \<and> np_matmul A B = Inr P \<and> core P = Inl e \<longrightarrow>
       fst (calculate_fid_run core real_mu real_sigma x_mu x_sigma s) = Inl e"
    by (simp add: val)
  have r4: "\<forall>d P out. np_sub_vec a b = Inr d \<and> np_matmul A B = Inr P \<and> core P = Inr out \<and>
       np_add_mat A B = Inl e \<longrightarrow>
       fst (calculate_fid_run core real_mu real_sigma x_mu x_sigma s) = Inl e"
    by (simp add: val)
  have r5: "\<forall>d P out S. np_sub_vec a b = Inr d \<and> np_matmul A B = Inr P \<and> core P = Inr out \<and>
       np_add_mat A B = Inr S \<and> np_sub_mat S (np_scale 2 (root out)) = Inl e \<longrightarrow>
       fst (calculate_fid_run core real_mu real_sigma x_mu x_sigma s) = Inl e"
    by (simp add: val)
  from r1 r2 r3 r4 r5 out indep show ?thesis by (intro conjI)
qed

theorem calculate_fid_failure_reporting_witness:
  "fst (calculate_fid_run failing_core 0 1 2 3
          (example_state\<lparr>heap := (heap example_state)(3 \<mapsto> Mat [[1, 0, 0], [0, 1, 0], [0, 0, 1]])\<rparr>))
     = Inl MatmulError \<and>
   stdout (snd (calculate_fid_run failing_core 0 1 2 3
          (example_state\<lparr>heap := (heap example_state)(3 \<mapsto> Mat [[1, 0, 0], [0, 1, 0], [0, 0, 1]])\<rparr>)))
     = []"
proof -
  let ?s = "example_state\<lparr>heap := (heap example_state)(3 \<mapsto> Mat [[1, 0, 0], [0, 1, 0], [0, 0, 1]])\<rparr>"
  have h: "heap ?s 0 = Some (Vec [1, 2])" "heap ?s 1 = Some (Mat [[0, 1], [0, 0]])"
    "heap ?s 2 = Some (Vec [3, 5])" "heap ?s 3 = Some (Mat [[1, 0, 0], [0, 1, 0], [0, 0, 1]])"
    by (simp_all add: example_state_def)
  have wf: "heap_wf ?s"
    by (auto simp: heap_wf_def example_state_def split: if_splits)
  have ok: "np_sub_vec [1, 2] [3, 5] = Inr [- 2, - 3]"
    by (simp add: np_sub_vec_def np_binop_vec_def bcast_len_def bidx_def upt_rec)
  have bad: "np_matmul [[0, 1], [0, 0]] [[1, 0, 0], [0, 1, 0], [0, 0, 1]] = Inl MatmulError"
    by (simp add: np_matmul_def nrows_def ncols_def)
  note th = calculate_fid_failure_reporting [OF h wf, of MatmulError failing_core]
  from th ok bad have "fst (calculate_fid_run failing_core 0 1 2 3 ?s) = Inl MatmulError"
    by blast
  moreover from th have "stdout (snd (calculate_fid_run failing_core 0 1 2 3 ?s)) = stdout ?s"
    by blast
  ultimately show ?thesis
    by (simp add: example_state_def)
qed

text \<open>The matrix \<open>[[0, 1], [0, 0]]\<close> has no square root at all.\<close>

lemma nilpotent_has_no_square_root: "matrix_product 2 X X \<noteq> [[0, 1], [0, 0]]"
proof
  assume sq: "matrix_product 2 X X = [[0, 1], [0, 0]]"
  define a b c d where "a = X ! 0 ! 0" and "b = X ! 0 ! 1" and "c = X ! 1 ! 0" and "d = X ! 1 ! 1"
  have e: "matrix_product 2 X X = [[a * a + b * c, a * b + b * d], [c * a + d * c, c * b + d * d]]"
    by (simp add: matrix_product_def a_def b_def c_def d_def lessThan_Suc eval_nat_numeral upt_rec)
  from sq e have 1: "a * a + b * c = 0" and 2: "a * b + b * d = 1"
    and 3: "c * a + d * c = 0" and 4: "c * b + d * d = 0"
    by simp_all
  from 2 have "b * (a + d) = 1" by (simp add: algebra_simps)
  then have ad: "a + d \<noteq> 0" by auto
  from 3 have "c * (a + d) = 0" by (simp add: algebra_simps)
  with ad have c0: "c = 0" by simp
  from 1 4 c0 have "a = 0" "d = 0" by simp_all
  with ad show False by simp
qed

text \<open>
  Claim C6 as stated fails where the routine reports that it found no square root. In the
  example state the product of the two matrices is \<open>[[0, 1], [0, 0]]\<close>. Called the default
  way on that product, the library prints its failure message; \<open>calculate_fid\<close> on the
  same arrays prints nothing and raises nothing.
\<close>

theorem calculate_fid_reporting_counterexample:
  "stdout (snd (sqrtm_of_product_default failing_core 1 3 example_state))
     = [''Failed to find a square root.''] \<and>
   stdout (snd (calculate_fid_run failing_core 0 1 2 3 example_state)) = [] \<and>
   \<not> isl (fst (calculate_fid_run failing_core 0 1 2 3 example_state))"
  by (simp add: calculate_fid_run_def sqrtm_of_product_default_def py_bind_def py_return_def
      py_lift_def py_print_def vec_sub_def vec_square_def vec_sum_def mat_matmul_def mat_add_def mat_sub_def mat_scale_def
      mat_trace_def sqrtm_def get_vec_def get_mat_def new_array_def example_state_def
      failing_core_def np_sub_vec_def np_binop_vec_def np_binop_mat_def np_add_mat_def
      np_sub_mat_def np_matmul_def np_scale_def bcast_len_def nrows_def ncols_def)

section \<open>Purity of the distance function\<close>

text \<open>
  Claim C7. \<open>calculate_fid\<close> mutates none of its four input arrays and no global state:
  every array that existed before the call is unchanged after it, as are the global
  bindings and the printed output; and two calls whose four arguments hold equal arrays
  return equal results, whatever the rest of the state is.
\<close>

theorem calculate_fid_pure:
  assumes "heap s real_mu = Some (Vec a)" and "heap s real_sigma = Some (Mat A)"
    and "heap s x_mu = Some (Vec b)" and "heap s x_sigma = Some (Mat B)" and "heap_wf s"
    and "heap t real_mu' = Some (Vec a)" and "heap t real_sigma' = Some (Mat A)"
    and "heap t x_mu' = Some (Vec b)" and "heap t x_sigma' = Some (Mat B)" and "heap_wf t"
  shows "(\<forall>r. heap s r \<noteq> None \<longrightarrow>
            heap (snd (calculate_fid_run core real_mu real_sigma x_mu x_sigma s)) r = heap s r) \<and>
         globals (snd (calculate_fid_run core real_mu real_sigma x_mu x_sigma s)) = globals s \<and>
         stdout (snd (calculate_fid_run core real_mu real_sigma x_mu x_sigma s)) = stdout s \<and>
         fst (calculate_fid_run core real_mu real_sigma x_mu x_sigma s) =
           fst (calculate_fid_run core real_mu' real_sigma' x_mu' x_sigma' t)"
proof -
  have "extends s (snd (calculate_fid_run core real_mu real_sigma x_mu x_sigma s))"
    using allocates_only_calculate_fid_run by (simp add: allocates_only_def)
  moreover have "fst (calculate_fid_run core real_mu real_sigma x_mu x_sigma s) =
      fst (calculate_fid_run core real_mu' real_sigma' x_mu' x_sigma' t)"
    by (simp add: calculate_fid_run_value [OF assms(1-5)] calculate_fid_run_value [OF assms(6-10)])
  ultimately show ?thesis
    using assms(5) by (auto simp: extends_def heap_wf_def)
qed

theorem calculate_fid_pure_witness:
  "heap (snd (calculate_fid_run failing_core 0 1 2 3 example_state)) 1 = Some (Mat [[0, 1], [0, 0]]) \<and>
   globals (snd (calculate_fid_run failing_core 0 1 2 3 example_state)) = globals example_state \<and>
   fst (calculate_fid_run failing_core 0 1 2 3 example_state) =
   fst (calculate_fid_run failing_core 2 3 0 1
         (example_state\<lparr>heap := [0 \<mapsto> Vec [3, 5], 1 \<mapsto> Mat [[1, 0], [0, 1]], 2 \<mapsto> Vec [1, 2],
                                   3 \<mapsto> Mat [[0, 1], [0, 0]], 4 \<mapsto> Vec []],
                         next_ref := 5, stdout := [''earlier output'']\<rparr>))"
proof -
  let ?t = "example_state\<lparr>heap := [0 \<mapsto> Vec [3, 5], 1 \<mapsto> Mat [[1, 0], [0, 1]], 2 \<mapsto> Vec [1, 2],
                                   3 \<mapsto> Mat [[0, 1], [0, 0]], 4 \<mapsto> Vec []],
                         next_ref := 5, stdout := [''earlier output'']\<rparr>"
  have wt: "heap_wf ?t"
    by (auto simp: heap_wf_def example_state_def split: if_splits)
  have s: "heap example_state 0 = Some (Vec [1, 2])" "heap example_state 1 = Some (Mat [[0, 1], [0, 0]])"
    "heap example_state 2 = Some (Vec [3, 5])" "heap example_state 3 = Some (Mat [[1, 0], [0, 1]])"
    by (simp_all add: example_state_def)
  have t: "heap ?t 2 = Some (Vec [1, 2])" "heap ?t 3 = Some (Mat [[0, 1], [0, 0]])"
    "heap ?t 0 = Some (Vec [3, 5])" "heap ?t 1 = Some (Mat [[1, 0], [0, 1]])"
    by (simp_all add: example_state_def)
  show ?thesis
    using calculate_fid_pure [OF s heap_wf_example t wt, of failing_core] s(2)
    by simp
qed

section \<open>Properties of the training step and of the loader\<close>

lemma trace_emit: "trace (emit ev s) = trace s @ [ev]"
  by (simp add: emit_def)

lemma trace_train_batch:
  "trace (snd (train_batch lib batch s)) =
     trace s @ [ToDevice, ToDevice, ZeroGrad, Forward, Loss, Backward, Step]"
  by (simp add: train_batch_def to_device_def zero_grad_def model_call_def loss_fn_def
      backward_def optimizer_step_def trace_emit Let_def split_def)

lemma trace_train_epoch_loop:
  "trace (train_epoch_loop lib bs s) = trace s @ concat (replicate (length bs) batch_events)"
proof (induction bs arbitrary: s)
  case Nil
  then show ?case by simp
next
  case (Cons b bs)
  show ?case
    by (simp add: Cons.IH split_def Let_def set_postfix_def trace_emit trace_train_batch
        batch_events_def)
qed

lemma preceded_append:
  "preceded prev (xs @ ys) =
     (preceded prev xs \<and> preceded (if xs = [] then prev else Some (last xs)) ys)"
  by (induction xs arbitrary: prev) auto

lemma preceded_batches:
  "prev \<noteq> Some Step \<Longrightarrow> preceded prev (concat (replicate n batch_events))"
proof (induction n arbitrary: prev)
  case 0
  then show ?case by simp
next
  case (Suc n)
  have "preceded (Some SetPostfix) (concat (replicate n batch_events))"
    by (rule Suc.IH) simp
  then show ?case
    by (simp add: preceded_append) (simp add: batch_events_def)
qed




lemma sum_list_zip_fst_snd:
  "(\<Sum>p\<leftarrow>zip (map (\<lambda>x. g (fst x)) b) (map snd b). f (fst p) (snd p)) =
   (\<Sum>p\<leftarrow>b. f (g (fst p)) (snd p))"
  by (induction b) auto

lemma train_batch_loss:
  "fst (train_batch lib batch s) = batch_loss lib (map data (params s)) batch"
  by (simp add: train_batch_def to_device_def zero_grad_def model_call_def loss_fn_def
      Let_def split_def emit_def batch_loss_def sum_list_zip_fst_snd comp_def)

lemma train_loss_loop_total:
  "fst (train_loss_loop lib bs r s) =
     r + (\<Sum>k<length bs. batch_loss lib (weights_seen lib bs s ! k) (bs ! k) * real (length (bs ! k)))"
proof (induction bs arbitrary: r s)
  case Nil
  then show ?case by simp
next
  case (Cons b bs)
  show ?case
    by (simp add: split_def Let_def Cons.IH train_batch_loss sum.lessThan_Suc_shift add.assoc
        del: sum.lessThan_Suc)
qed

lemma weights_seen_rng: "weights_seen lib bs (s\<lparr>rng := k\<rparr>) = weights_seen lib bs s"
proof (induction bs arbitrary: s)
  case Nil
  then show ?case by simp
next
  case (Cons b bs)
  have eq: "snd (train_batch lib b (s\<lparr>rng := k\<rparr>)) = (snd (train_batch lib b s))\<lparr>rng := k\<rparr>"
    by (simp add: train_batch_def to_device_def zero_grad_def model_call_def loss_fn_def
        backward_def optimizer_step_def Let_def split_def emit_def)
  show ?case by (simp add: eq Cons.IH)
qed

lemma concat_chunks: "concat (chunks n xs) = (if n = 0 then [] else xs)"
proof (induction n xs rule: chunks.induct)
  case (1 n xs)
  show ?case
  proof (cases "n = 0 \<or> xs = []")
    case True
    then show ?thesis by (auto simp: chunks.simps [of n xs])
  next
    case False
    with 1 show ?thesis by (simp add: chunks.simps [of n xs])
  qed
qed

lemma sum_length_filter: "(\<Sum>b\<leftarrow>filter P bs. length b) \<le> length (concat bs)"
  by (induction bs) auto

lemma sum_list_const: "(\<forall>b\<in>set bs. f b = c) \<Longrightarrow> sum_list (map f bs) = length bs * (c::nat)"
  by (induction bs) auto

lemma full_batches_bound:
  assumes "drop_last loader" and "0 < batch_size loader"
    and "length (sampler lib seed (dataset loader)) = length (dataset loader)"
  shows "(\<forall>b\<in>set (batches lib loader seed). length b = batch_size loader) \<and>
         length (batches lib loader seed) * batch_size loader \<le> length (dataset loader)"
proof -
  let ?B = "batch_size loader"
  let ?order = "if shuffle loader then sampler lib seed (dataset loader) else dataset loader"
  have bs: "batches lib loader seed = filter (\<lambda>b. length b = ?B) (chunks ?B ?order)"
    using assms(1) by (simp add: batches_def Let_def)
  have all: "\<forall>b\<in>set (batches lib loader seed). length b = ?B"
    by (simp add: bs)
  have "length (batches lib loader seed) * ?B = (\<Sum>b\<leftarrow>batches lib loader seed. length b)"
    using sum_list_const [OF all] by simp
  also have "\<dots> \<le> length (concat (chunks ?B ?order))"
    unfolding bs by (rule sum_length_filter)
  also have "\<dots> = length (dataset loader)"
    using assms(2,3) by (simp add: concat_chunks)
  finally show ?thesis using all by simp
qed

lemma train_Suc:
  "train lib loader st (Suc n) = bind_err (train lib loader st n) (train_one_epoch lib loader)"
proof (induction n arbitrary: st)
  case 0
  then show ?case by (simp add: bind_err_def split: sum.splits)
next
  case (Suc n)
  show ?case
  proof (cases "train_one_epoch lib loader st")
    case (Inl e)
    then show ?thesis by (simp add: bind_err_def)
  next
    case (Inr st')
    have "train lib loader st (Suc (Suc n)) = train lib loader st' (Suc n)"
      using Inr by (simp add: bind_err_def)
    also have "\<dots> = bind_err (train lib loader st' n) (train_one_epoch lib loader)"
      by (rule Suc.IH)
    also have "train lib loader st' n = train lib loader st (Suc n)"
      using Inr by (simp add: bind_err_def)
    finally show ?thesis .
  qed
qed

lemma progress_lr_scheduler_step:
  "progress (snd (lr_scheduler_step lib sch v s)) = progress s"
  by (cases sch) (simp_all add: lr_scheduler_step_def split_def Let_def emit_def)

lemma reported_train_one_epoch:
  assumes "dataset loader \<noteq> []"
  shows "\<exists>st'. train_one_epoch lib loader (sch, s) = Inr st' \<and>
     last (progress (snd st')) =
       fst (train_loss_loop lib (batches lib loader (rng s)) 0 (s\<lparr>rng := Suc (rng s)\<rparr>))
         / real (length (dataset loader))"
  using assms
  by (simp add: train_one_epoch_def split_def Let_def set_postfix_def emit_def
      progress_lr_scheduler_step)

lemma batch_loss_times_length:
  "batch \<noteq> [] \<Longrightarrow>
   batch_loss lib w batch * real (length batch) = sum_list (sample_losses lib w batch)"
  by (simp add: batch_loss_def sample_losses_def)

lemma chunks_Nil: "chunks n [] = []"
  by (subst chunks.simps) simp

lemma chunks_Cons:
  "0 < n \<Longrightarrow> chunks n (x # xs) = take n (x # xs) # chunks n (drop n (x # xs))"
  by (subst chunks.simps) simp

lemma example_batches: "batches example_torch example_loader 0 = [[(1, 0), (2, 0)]]"
  by (simp add: batches_def example_loader_def chunks_Nil chunks_Cons)

lemma example_mean: "mean_processed_loss example_torch [[(1, 0), (2, 0)]] example_trainer = 3 / 2"
  by (simp add: mean_processed_loss_def processed_total_def processed_count_def
      sample_losses_def example_torch_def)

section \<open>Order of the calls in \<open>train_epoch\<close>\<close>

text \<open>
  Claim C8. \<open>train_epoch\<close> puts the module in training mode and then, for every batch the
  loader yields, makes the same calls in the same order: the two tensors of the batch are
  moved to the device, the gradients are zeroed, the forward pass runs, the loss is
  computed, backpropagation runs, the optimizer steps, and the progress bar is updated.
  In particular every \<open>optimizer.step\<close> comes directly after a \<open>loss.backward\<close>.
\<close>

theorem train_epoch_order:
  "trace (train_epoch lib train_loader s) =
     trace s @ TrainMode # concat (replicate (length (batches lib train_loader (rng s))) batch_events) \<and>
   step_follows_backward
     (TrainMode # concat (replicate (length (batches lib train_loader (rng s))) batch_events))"
proof
  show "trace (train_epoch lib train_loader s) =
     trace s @ TrainMode # concat (replicate (length (batches lib train_loader (rng s))) batch_events)"
    by (simp add: train_epoch_def model_train_def trace_train_epoch_loop emit_def Let_def)
  show "step_follows_backward
     (TrainMode # concat (replicate (length (batches lib train_loader (rng s))) batch_events))"
    by (simp add: step_follows_backward_def preceded_batches)
qed

theorem train_epoch_order_witness:
  "trace (train_epoch example_torch example_loader example_trainer) =
     [TrainMode, ToDevice, ToDevice, ZeroGrad, Forward, Loss, Backward, Step, SetPostfix] \<and>
   step_follows_backward
     [TrainMode, ToDevice, ToDevice, ZeroGrad, Forward, Loss, Backward, Step, SetPostfix]"
proof -
  have r: "rng example_trainer = 0" by (simp add: example_trainer_def)
  have t: "trace example_trainer = []" by (simp add: example_trainer_def)
  show ?thesis
    using train_epoch_order [of example_torch example_loader example_trainer]
    unfolding r t example_batches by (simp add: batch_events_def)
qed

section \<open>One optimizer step and the manual update\<close>



section \<open>The running average reported by \<open>train\<close>\<close>

text \<open>
  Claim C10. Let the loader drop the last batch and let the length of the data set not be
  a multiple of the batch size. In every epoch the value \<open>train\<close> reports is the sum over
  the yielded batches of mean batch loss times batch size, divided by the length of the
  whole data set; and when the mean loss per sample over the samples that were processed
  is positive, the reported value is strictly smaller than that mean.
  The epoch considered is the one that follows \<open>n\<close> completed epochs.
\<close>

theorem running_average_train_loss:
  assumes "drop_last train_loader" and "0 < batch_size train_loader"
    and "length (dataset train_loader) mod batch_size train_loader \<noteq> 0"
    and "train lib train_loader st n = Inr (sch, s)"
    and "length (sampler lib (rng s) (dataset train_loader)) = length (dataset train_loader)"
  shows "\<exists>st'. train lib train_loader st (Suc n) = Inr st' \<and>
           last (progress (snd st')) =
             weighted_batch_losses lib (batches lib train_loader (rng s)) s (batch_size train_loader)
               / real (length (dataset train_loader)) \<and>
           (0 < mean_processed_loss lib (batches lib train_loader (rng s)) s \<longrightarrow>
              last (progress (snd st'))
                < mean_processed_loss lib (batches lib train_loader (rng s)) s)"
proof -
  let ?B = "batch_size train_loader" and ?N = "length (dataset train_loader)"
  let ?bs = "batches lib train_loader (rng s)"
  let ?ws = "weights_seen lib ?bs s"
  have nonempty: "dataset train_loader \<noteq> []"
    using assms(3) by auto
  from reported_train_one_epoch [OF nonempty, of lib sch s] obtain st' where
    st': "train_one_epoch lib train_loader (sch, s) = Inr st'"
    and last: "last (progress (snd st')) =
       fst (train_loss_loop lib (batches lib train_loader (rng s)) 0 (s\<lparr>rng := Suc (rng s)\<rparr>))
         / real (length (dataset train_loader))"
    by blast
  have run: "train lib train_loader st (Suc n) = Inr st'"
    unfolding train_Suc assms(4) by (simp add: bind_err_def st')
  define rep where "rep = last (progress (snd st'))"
  from full_batches_bound [OF assms(1,2,5)]
  have full: "\<forall>b\<in>set ?bs. length b = ?B" and le: "length ?bs * ?B \<le> ?N"
    by simp_all
  have len: "length (?bs ! k) = ?B" if "k < length ?bs" for k
    using full that by simp
  have rep: "rep = (\<Sum>k<length ?bs. batch_loss lib (?ws ! k) (?bs ! k) * real (length (?bs ! k))) / real ?N"
    unfolding rep_def last
    by (simp add: train_loss_loop_total weights_seen_rng)
  have w: "(\<Sum>k<length ?bs. batch_loss lib (?ws ! k) (?bs ! k) * real (length (?bs ! k)))
             = weighted_batch_losses lib ?bs s ?B"
    unfolding weighted_batch_losses_def by (rule sum.cong) (simp_all add: len)
  have first: "rep = weighted_batch_losses lib ?bs s ?B / real ?N"
    by (simp add: rep w)
  have tot: "processed_total lib ?bs s = weighted_batch_losses lib ?bs s ?B"
    unfolding processed_total_def weighted_batch_losses_def
  proof (rule sum.cong)
    fix k assume "k \<in> {..<length ?bs}"
    then have k: "k < length ?bs" by simp
    then have "?bs ! k \<noteq> []" using len [OF k] assms(2) by auto
    from batch_loss_times_length [OF this, of lib "?ws ! k"] len [OF k]
    show "sum_list (sample_losses lib (?ws ! k) (?bs ! k)) = batch_loss lib (?ws ! k) (?bs ! k) * real ?B"
      by simp
  qed simp
  have cnt: "processed_count ?bs = length ?bs * ?B"
    unfolding processed_count_def using len by simp
  have "?N \<noteq> length ?bs * ?B"
    using assms(3) by auto
  with le have lt: "length ?bs * ?B < ?N" by simp
  have second: "rep < mean_processed_loss lib ?bs s" if pos: "0 < mean_processed_loss lib ?bs s"
  proof -
    let ?T = "weighted_batch_losses lib ?bs s ?B"
    have m: "mean_processed_loss lib ?bs s = ?T / real (length ?bs * ?B)"
      by (simp add: mean_processed_loss_def tot cnt)
    have c0: "0 < length ?bs * ?B"
    proof (rule ccontr)
      assume "\<not> 0 < length ?bs * ?B"
      then have z: "length ?bs * ?B = 0" by simp
      have "mean_processed_loss lib ?bs s = 0" unfolding m z by simp
      with pos show False by simp
    qed
    then have c1: "0 < real (length ?bs * ?B)" by simp
    have T0: "0 < ?T"
      using pos c1 unfolding m by (simp only: zero_less_divide_iff) linarith
    have ltr: "real (length ?bs * ?B) < real ?N"
      using lt by (simp only: of_nat_less_iff)
    have N0: "0 < real ?N"
      using c1 ltr by linarith
    have "?T / real ?N < ?T / real (length ?bs * ?B)"
      by (rule divide_strict_left_mono [OF ltr T0 mult_pos_pos [OF N0 c1]])
    then show ?thesis by (simp add: first m)
  qed
  from run first second show ?thesis unfolding rep_def by blast
qed

theorem running_average_train_loss_witness:
  "\<exists>st'. train example_torch example_loader (NoScheduler, example_trainer) (Suc 0) = Inr st' \<and>
     last (progress (snd st')) = 1 \<and>
     last (progress (snd st'))
       < mean_processed_loss example_torch (batches example_torch example_loader 0) example_trainer"
proof -
  have r: "rng example_trainer = 0" by (simp add: example_trainer_def)
  have w: "weighted_batch_losses example_torch [[(1, 0), (2, 0)]] example_trainer 2 = 3"
    by (simp add: weighted_batch_losses_def batch_loss_def example_torch_def)
  have h1: "drop_last example_loader" and h2: "0 < batch_size example_loader"
    and h3: "length (dataset example_loader) mod batch_size example_loader \<noteq> 0"
    and n: "real (length (dataset example_loader)) = 3"
    and b: "batch_size example_loader = 2"
    by (simp_all add: example_loader_def)
  have h4: "train example_torch example_loader (NoScheduler, example_trainer) 0 =
      Inr (NoScheduler, example_trainer)"
    by simp
  have h5: "length (sampler example_torch (rng example_trainer) (dataset example_loader)) =
      length (dataset example_loader)"
    by (simp add: example_torch_def)
  from running_average_train_loss [OF h1 h2 h3 h4 h5] obtain st' where
    run: "train example_torch example_loader (NoScheduler, example_trainer) (Suc 0) = Inr st'"
    and v: "last (progress (snd st')) = 3 / 3 \<and> (0 < (3 / 2 :: real) \<longrightarrow> last (progress (snd st')) < 3 / 2)"
    unfolding r example_batches example_mean b w n by blast
  define reported where "reported = last (progress (snd st'))"
  from v have "reported = 1 \<and> reported < 3 / 2"
    unfolding reported_def [symmetric] by simp
  with run show ?thesis
    unfolding reported_def r example_batches example_mean by blast
qed

end
